theory Spec2Isabelle
  imports Main "HOL-Library.Word"
begin

unbundle bit_operations_syntax

section \<open>Strings\<close>

text \<open>
  A JavaScript string is a sequence of UTF-16 code units and \<open>length\<close> counts code
  units. The model takes strings over the code units below 256 (Latin-1), one
  \<^typ>\<open>char\<close> per code unit, so \<^const>\<open>length\<close> is the JavaScript length.
  An empty string is falsy, every other string is truthy.
\<close>

definition truthy :: "string \<Rightarrow> bool" where
  "truthy s = (s \<noteq> [])"

text \<open>\<open>s.split(sep)\<close> for a separator of one character: the pieces between the separators,
  empty pieces kept; the empty string gives one empty piece.\<close>

fun split_on :: "char \<Rightarrow> string \<Rightarrow> string list" where
  "split_on sep [] = [[]]"
| "split_on sep (c # cs) =
     (if c = sep then [] # split_on sep cs
      else (case split_on sep cs of
              [] \<Rightarrow> [[c]]
            | x # xs \<Rightarrow> (c # x) # xs))"

text \<open>\<open>xs.join(sep)\<close>.\<close>

fun join :: "string \<Rightarrow> string list \<Rightarrow> string" where
  "join sep [] = []"
| "join sep [x] = x"
| "join sep (x # y # ys) = x @ sep @ join sep (y # ys)"

text \<open>\<open>s.replace(/,/g, r)\<close>, for a replacement of one character.\<close>

definition replace_commas :: "char \<Rightarrow> string \<Rightarrow> string" where
  "replace_commas r s = map (\<lambda>c. if c = CHR '','' then r else c) s"

text \<open>\<open>s.startsWith(p)\<close> and \<open>s.includes(p)\<close>.\<close>

fun startsWith :: "string \<Rightarrow> string \<Rightarrow> bool" where
  "startsWith s [] = True"
| "startsWith [] (p # ps) = False"
| "startsWith (c # cs) (p # ps) = (c = p \<and> startsWith cs ps)"

fun str_includes :: "string \<Rightarrow> string \<Rightarrow> bool" where
  "str_includes [] p = (p = [])"
| "str_includes (c # cs) p = (startsWith (c # cs) p \<or> str_includes cs p)"

text \<open>\<open>s.toLowerCase()\<close> on Latin-1: the letters A to Z and the capital letters
  U+00C0 to U+00DE (the multiplication sign U+00D7 apart) move up by 32.\<close>

definition lower_char :: "char \<Rightarrow> char" where
  "lower_char c =
     (let n = (of_char c :: nat) in
      if (65 \<le> n \<and> n \<le> 90) \<or> (192 \<le> n \<and> n \<le> 222 \<and> n \<noteq> 215)
      then char_of (n + 32) else c)"

definition toLowerCase :: "string \<Rightarrow> string" where
  "toLowerCase s = map lower_char s"

definition is_digit :: "char \<Rightarrow> bool" where
  "is_digit c = (c \<in> set ''0123456789'')"

section \<open>Errors\<close>

text \<open>What the program throws: \<open>TypeError(msg)\<close>, \<open>Error(msg)\<close>, and the rejection of an
  external call (a command that exits with a non-zero status, a failing cache service).\<close>

datatype error = TypeError string | Error string | ExternalFailure string

section \<open>Version comparison\<close>

text \<open>
  Modelled from the spec: the package \<open>compare-versions\<close> is imported by the program and
  is not among its sources. The spec asks for "standard semantic-version ordering
  semantics (\<open>>=\<close>, \<open><\<close>) -- not lexical string comparison". The model covers the plain
  numeric versions: one to three decimal numbers separated by dots (major, minor,
  patch), a missing minor or patch counting as 0, compared number by number. On any
  other string the model throws, as the package does on a string that is not a version
  (the empty string among them). Forms of a version beyond the plain numeric ones
  (a prefix, a pre-release tag, a wildcard) are outside the model: it throws on them
  too, so every statement below about a version that is accepted is about a plain
  numeric one.
\<close>

datatype CompareOperator = Op_ge | Op_lt

definition nat_of_digits :: "string \<Rightarrow> nat" where
  "nat_of_digits s = foldl (\<lambda>n c. 10 * n + (of_char c - 48)) 0 s"

definition validateAndParse :: "string \<Rightarrow> nat list option" where
  "validateAndParse v =
     (let segs = split_on CHR ''.'' v in
      if length segs \<le> 3 \<and> list_all (\<lambda>s. s \<noteq> [] \<and> list_all is_digit s) segs
      then Some (map nat_of_digits segs) else None)"

fun compareSegments :: "nat list \<Rightarrow> nat list \<Rightarrow> int" where
  "compareSegments [] [] = 0"
| "compareSegments (x # xs) [] = (if 0 < x then 1 else compareSegments xs [])"
| "compareSegments [] (y # ys) = (if 0 < y then - 1 else compareSegments [] ys)"
| "compareSegments (x # xs) (y # ys) =
     (if y < x then 1 else if x < y then - 1 else compareSegments xs ys)"

definition compare :: "string \<Rightarrow> string \<Rightarrow> CompareOperator \<Rightarrow> error + bool" where
  "compare v1 v2 op =
     (case validateAndParse v1 of
        None \<Rightarrow> Inl (Error (''Invalid argument not valid semver ('' @ v1 @ '' received)''))
      | Some n1 \<Rightarrow>
          (case validateAndParse v2 of
             None \<Rightarrow> Inl (Error (''Invalid argument not valid semver ('' @ v2 @ '' received)''))
           | Some n2 \<Rightarrow>
               Inr (case op of
                      Op_ge \<Rightarrow> 0 \<le> compareSegments n1 n2
                    | Op_lt \<Rightarrow> compareSegments n1 n2 < 0)))"

text \<open>\<open>compareVersions(v1, op, v2)\<close> of the program: the package's \<open>compare\<close> with the
  operator in the middle.\<close>

definition compareVersions :: "string \<Rightarrow> CompareOperator \<Rightarrow> string \<Rightarrow> error + bool" where
  "compareVersions v1 op v2 = compare v1 v2 op"

section \<open>SHA-256\<close>

text \<open>
  Modelled from the spec: \<open>crypto\<close> is Node's and not among the sources; the spec names
  the digest, "SHA256(fullAssembledString as hex)". For
  \<open>crypto.createHash("sha256").update(s).digest("hex")\<close> the string is encoded in UTF-8
  (a code unit below 128 is one byte, one from 128 to 255 two bytes), hashed with
  SHA-256 (FIPS 180-4) and the 32 bytes of the digest are written as 64 lowercase
  hexadecimal digits.
\<close>

definition utf8 :: "string \<Rightarrow> 8 word list" where
  "utf8 s = concat (map (\<lambda>c. let n = (of_char c :: nat) in
                               if n < 128 then [of_nat n]
                               else [of_nat (192 + n div 64), of_nat (128 + n mod 64)]) s)"

definition K256 :: "32 word list" where
  "K256 =
       [0x428a2f98, 0x71374491, 0xb5c0fbcf, 0xe9b5dba5, 0x3956c25b, 0x59f111f1, 0x923f82a4, 0xab1c5ed5]
     @ [0xd807aa98, 0x12835b01, 0x243185be, 0x550c7dc3, 0x72be5d74, 0x80deb1fe, 0x9bdc06a7, 0xc19bf174]
     @ [0xe49b69c1, 0xefbe4786, 0x0fc19dc6, 0x240ca1cc, 0x2de92c6f, 0x4a7484aa, 0x5cb0a9dc, 0x76f988da]
     @ [0x983e5152, 0xa831c66d, 0xb00327c8, 0xbf597fc7, 0xc6e00bf3, 0xd5a79147, 0x06ca6351, 0x14292967]
     @ [0x27b70a85, 0x2e1b2138, 0x4d2c6dfc, 0x53380d13, 0x650a7354, 0x766a0abb, 0x81c2c92e, 0x92722c85]
     @ [0xa2bfe8a1, 0xa81a664b, 0xc24b8b70, 0xc76c51a3, 0xd192e819, 0xd6990624, 0xf40e3585, 0x106aa070]
     @ [0x19a4c116, 0x1e376c08, 0x2748774c, 0x34b0bcb5, 0x391c0cb3, 0x4ed8aa4a, 0x5b9cca4f, 0x682e6ff3]
     @ [0x748f82ee, 0x78a5636f, 0x84c87814, 0x8cc70208, 0x90befffa, 0xa4506ceb, 0xbef9a3f7, 0xc67178f2]"

type_synonym sha_state =
  "32 word \<times> 32 word \<times> 32 word \<times> 32 word \<times> 32 word \<times> 32 word \<times> 32 word \<times> 32 word"

definition H256 :: sha_state where
  "H256 = (0x6a09e667, 0xbb67ae85, 0x3c6ef372, 0xa54ff53a,
           0x510e527f, 0x9b05688c, 0x1f83d9ab, 0x5be0cd19)"

definition Ch :: "32 word \<Rightarrow> 32 word \<Rightarrow> 32 word \<Rightarrow> 32 word" where
  "Ch x y z = (x AND y) XOR (NOT x AND z)"

definition Maj :: "32 word \<Rightarrow> 32 word \<Rightarrow> 32 word \<Rightarrow> 32 word" where
  "Maj x y z = (x AND y) XOR (x AND z) XOR (y AND z)"

definition Sigma0 :: "32 word \<Rightarrow> 32 word" where
  "Sigma0 x = word_rotr 2 x XOR word_rotr 13 x XOR word_rotr 22 x"

definition Sigma1 :: "32 word \<Rightarrow> 32 word" where
  "Sigma1 x = word_rotr 6 x XOR word_rotr 11 x XOR word_rotr 25 x"

definition sigma0 :: "32 word \<Rightarrow> 32 word" where
  "sigma0 x = word_rotr 7 x XOR word_rotr 18 x XOR drop_bit 3 x"

definition sigma1 :: "32 word \<Rightarrow> 32 word" where
  "sigma1 x = word_rotr 17 x XOR word_rotr 19 x XOR drop_bit 10 x"

text \<open>Padding: the byte 0x80, zero bytes up to 56 modulo 64, the bit length on 8 bytes.\<close>

definition be64 :: "nat \<Rightarrow> 8 word list" where
  "be64 n = map (\<lambda>s. ucast (drop_bit s (of_nat n :: 64 word))) [56, 48, 40, 32, 24, 16, 8, 0]"

definition sha_pad :: "8 word list \<Rightarrow> 8 word list" where
  "sha_pad m =
     m @ [0x80] @ replicate ((119 - length m mod 64) mod 64) 0 @ be64 (8 * length m)"

primrec chunks :: "nat \<Rightarrow> nat \<Rightarrow> 'a list \<Rightarrow> 'a list list" where
  "chunks k 0 xs = []"
| "chunks k (Suc n) xs = take k xs # chunks k n (drop k xs)"

definition be32 :: "8 word list \<Rightarrow> 32 word" where
  "be32 bs = foldl (\<lambda>acc b. push_bit 8 acc OR ucast b) 0 bs"

text \<open>The message schedule: 16 words of the block, extended to 64.\<close>

primrec extend :: "nat \<Rightarrow> 32 word list \<Rightarrow> 32 word list" where
  "extend 0 ws = ws"
| "extend (Suc n) ws =
     (let t = length ws in
      extend n (ws @ [sigma1 (ws ! (t - 2)) + ws ! (t - 7) + sigma0 (ws ! (t - 15)) + ws ! (t - 16)]))"

definition schedule :: "8 word list \<Rightarrow> 32 word list" where
  "schedule block = extend 48 (map be32 (chunks 4 16 block))"

fun sha_round :: "sha_state \<Rightarrow> 32 word \<times> 32 word \<Rightarrow> sha_state" where
  "sha_round (a, b, c, d, e, f, g, h) (k, w) =
     (let t1 = h + Sigma1 e + Ch e f g + k + w;
          t2 = Sigma0 a + Maj a b c
      in (t1 + t2, a, b, c, d + t1, e, f, g))"

fun add_state :: "sha_state \<Rightarrow> sha_state \<Rightarrow> sha_state" where
  "add_state (a, b, c, d, e, f, g, h) (a', b', c', d', e', f', g', h') =
     (a + a', b + b', c + c', d + d', e + e', f + f', g + g', h + h')"

definition compress :: "sha_state \<Rightarrow> 8 word list \<Rightarrow> sha_state" where
  "compress st block = add_state st (foldl sha_round st (zip K256 (schedule block)))"

definition sha256 :: "8 word list \<Rightarrow> sha_state" where
  "sha256 m =
     (let p = sha_pad m in foldl compress H256 (chunks 64 (length p div 64) p))"

definition hex_digit :: "nat \<Rightarrow> char" where
  "hex_digit n = ''0123456789abcdef'' ! n"

definition hex32 :: "32 word \<Rightarrow> string" where
  "hex32 x = map (\<lambda>s. hex_digit (unat (drop_bit s x AND 15))) [28, 24, 20, 16, 12, 8, 4, 0]"

fun hex_state :: "sha_state \<Rightarrow> string" where
  "hex_state (a, b, c, d, e, f, g, h) =
     hex32 a @ hex32 b @ hex32 c @ hex32 d @ hex32 e @ hex32 f @ hex32 g @ hex32 h"

definition sha256_hex :: "string \<Rightarrow> string" where
  "sha256_hex s = hex_state (sha256 (utf8 s))"

section \<open>The environment of a run\<close>

text \<open>
  Everything the program reads from outside itself, as one record. The functions of the
  Actions toolkit (\<open>core.getInput\<close>, \<open>cache.restoreCache\<close>, \<open>cache.saveCache\<close>, \<open>exec\<close>,
  \<open>getExecOutput\<close>), of Node (\<open>process.platform\<close>, \<open>process.env\<close>, \<open>os.release\<close>, \<open>path\<close>,
  \<open>fs\<close>) and of \<open>glob\<close> are not part of the program: each is a field, a function of the
  arguments the program passes.
  \<^item> \<open>getInput\<close>: the raw input of a name, the empty string when the input is absent;
  \<^item> \<open>exec_fails\<close>: whether the command line exits with a non-zero status (\<open>exec\<close> then
    rejects);
  \<^item> \<open>exec_output\<close>: \<open>stdout + stderr\<close> of a command run by \<open>getExecOutput\<close>, or its
    rejection;
  \<^item> \<open>latest_tag\<close>: what the \<open>try\<close> block of \<open>getLatestCompatibleVersion\<close> returns for a
    version constraint (the remote tag listing, filtered and sorted), or the text of
    the error it throws;
  \<^item> \<open>restore_cache\<close>: the key \<open>cache.restoreCache\<close> resolves to, \<open>None\<close> for
    \<open>undefined\<close>; \<open>save_cache\<close>: the cache id, as the template literal prints it.
\<close>

record World =
  getInput :: "string \<Rightarrow> string"
  platform :: string
  env :: "string \<Rightarrow> string option"
  os_release :: string
  path_resolve :: "string list \<Rightarrow> string"
  path_join :: "string list \<Rightarrow> string"
  path_basename :: "string \<Rightarrow> string"
  glob_sync :: "string \<Rightarrow> string list"
  is_directory :: "string \<Rightarrow> bool"
  exec_fails :: "string \<Rightarrow> bool"
  exec_output :: "string \<Rightarrow> error + string"
  latest_tag :: "string \<Rightarrow> string + string"
  restore_cache :: "string list \<Rightarrow> string \<Rightarrow> error + string option"
  save_cache :: "string list \<Rightarrow> string \<Rightarrow> error + string"

section \<open>The configuration: class \<open>Inputs\<close>\<close>

datatype Host = Windows | Mac | Linux

datatype Target = Desktop | Android | Ios

datatype Wasm = WasmNone | Singlethread | Multithread

text \<open>\<open>installDeps: boolean | "nosudo"\<close>.\<close>

datatype InstallDeps = Deps bool | Nosudo

fun host_str :: "Host \<Rightarrow> string" where
  "host_str Windows = ''windows''"
| "host_str Mac = ''mac''"
| "host_str Linux = ''linux''"

fun target_str :: "Target \<Rightarrow> string" where
  "target_str Desktop = ''desktop''"
| "target_str Android = ''android''"
| "target_str Ios = ''ios''"

fun wasm_str :: "Wasm \<Rightarrow> string" where
  "wasm_str WasmNone = ''none''"
| "wasm_str Singlethread = ''singlethread''"
| "wasm_str Multithread = ''multithread''"

record Inputs =
  host :: Host
  target :: Target
  version :: string
  wasm :: Wasm
  arch :: string
  dir :: string
  modules :: "string list"
  archives :: "string list"
  tools :: "string list"
  addToolsToPath :: bool
  extra :: "string list"
  src :: bool
  srcArchives :: "string list"
  doc :: bool
  docArchives :: "string list"
  docModules :: "string list"
  example :: bool
  exampleArchives :: "string list"
  exampleModules :: "string list"
  installDeps :: InstallDeps
  cache :: bool
  cacheKeyPrefix :: string
  isInstallQtBinaries :: bool
  setEnv :: bool
  aqtSource :: string
  aqtVersion :: string
  py7zrVersion :: string

text \<open>A thrown error ends the computation: the rest runs on a returned value only.\<close>

definition bindE :: "error + 'a \<Rightarrow> ('a \<Rightarrow> error + 'b) \<Rightarrow> error + 'b" where
  "bindE m f = (case m of Inl e \<Rightarrow> Inl e | Inr x \<Rightarrow> f x)"

text \<open>The double quote of the error messages.\<close>

definition dq :: string where
  "dq = [CHR 0x22]"

definition getBoolInput :: "World \<Rightarrow> string \<Rightarrow> bool" where
  "getBoolInput w name = (toLowerCase (getInput w name) = ''true'')"

definition getStringArrayInput :: "World \<Rightarrow> string \<Rightarrow> string list" where
  "getStringArrayInput w name =
     (let content = getInput w name in
      if truthy content then split_on CHR '' '' content else [])"

text \<open>The constructor, block by block in the order of the source. Lines 134 to 156:\<close>

definition ctor_host :: "World \<Rightarrow> error + Host" where
  "ctor_host w =
     (let h = getInput w ''host'' in
      if \<not> truthy h then
        Inr (if platform w = ''win32'' then Windows
             else if platform w = ''darwin'' then Mac
             else Linux)
      else if h = ''windows'' then Inr Windows
      else if h = ''mac'' then Inr Mac
      else if h = ''linux'' then Inr Linux
      else Inl (TypeError (''host: '' @ dq @ h @ dq @ '' is not one of '' @ dq @ ''windows''
                 @ dq @ '' | '' @ dq @ ''mac'' @ dq @ '' | '' @ dq @ ''linux'' @ dq)))"

text \<open>Lines 158 to 163.\<close>

definition ctor_target :: "World \<Rightarrow> error + Target" where
  "ctor_target w =
     (let t = getInput w ''target'' in
      if t = ''desktop'' then Inr Desktop
      else if t = ''android'' then Inr Android
      else if t = ''ios'' then Inr Ios
      else Inl (TypeError (''target: '' @ dq @ t @ dq @ '' is not one of '' @ dq @ ''desktop''
                 @ dq @ '' | '' @ dq @ ''android'' @ dq @ '' | '' @ dq @ ''ios'' @ dq)))"

text \<open>Lines 165 to 170.\<close>

definition ctor_wasm :: "World \<Rightarrow> error + Wasm" where
  "ctor_wasm w =
     (let m = getInput w ''wasm'' in
      if m = ''none'' then Inr WasmNone
      else if m = ''singlethread'' then Inr Singlethread
      else if m = ''multithread'' then Inr Multithread
      else Inl (TypeError (''wasm: '' @ dq @ m @ dq @ '' is not one of '' @ dq @ ''none''
                 @ dq @ '' | '' @ dq @ ''singlethread'' @ dq @ '' | '' @ dq @ ''multithread'' @ dq)))"

text \<open>Lines 174 to 198: the raw \<open>arch\<close>, or its default. \<open>a && b\<close> evaluates \<open>b\<close> only when
  \<open>a\<close> is true, and a comparison that throws ends the constructor.\<close>

definition ctor_arch :: "World \<Rightarrow> Host \<Rightarrow> Target \<Rightarrow> string \<Rightarrow> error + string" where
  "ctor_arch w h t v =
     (let a = getInput w ''arch'' in
      if truthy a then Inr a
      else if t = Android then
        bindE (compareVersions v Op_ge ''5.14.0'') (\<lambda>ge.
          if ge then
            bindE (compareVersions v Op_lt ''6.0.0'') (\<lambda>lt.
              Inr (if lt then ''android'' else ''android_armv7''))
          else Inr ''android_armv7'')
      else if h = Windows then
        bindE (compareVersions v Op_ge ''6.8.0'') (\<lambda>b1.
          if b1 then Inr ''win64_msvc2022_64''
          else bindE (compareVersions v Op_ge ''5.15.0'') (\<lambda>b2.
            if b2 then Inr ''win64_msvc2019_64''
            else bindE (compareVersions v Op_lt ''5.6.0'') (\<lambda>b3.
              if b3 then Inr ''win64_msvc2013_64''
              else bindE (compareVersions v Op_lt ''5.9.0'') (\<lambda>b4.
                Inr (if b4 then ''win64_msvc2015_64'' else ''win64_msvc2017_64'')))))
      else Inr a)"

text \<open>Lines 200 to 204: \<open>core.getInput("dir") || process.env.RUNNER_WORKSPACE\<close>; an unset
  variable and an empty one are both falsy.\<close>

definition ctor_dir :: "World \<Rightarrow> error + string" where
  "ctor_dir w =
     (let d = (if truthy (getInput w ''dir'') then getInput w ''dir''
               else (case env w ''RUNNER_WORKSPACE'' of None \<Rightarrow> [] | Some x \<Rightarrow> x)) in
      if \<not> truthy d then
        Inl (TypeError (dq @ ''dir'' @ dq @ '' input may not be empty''))
      else Inr (path_resolve w [d, ''Qt'']))"

text \<open>Lines 214 to 219.\<close>

definition ctor_installDeps :: "World \<Rightarrow> InstallDeps" where
  "ctor_installDeps w =
     (let d = toLowerCase (getInput w ''install-deps'') in
      if d = ''nosudo'' then Nosudo else Deps (d = ''true''))"

text \<open>\<open>new Inputs()\<close>: the configuration, or the error the constructor throws.\<close>

definition Inputs_new :: "World \<Rightarrow> error + Inputs" where
  "Inputs_new w =
     bindE (ctor_host w) (\<lambda>h.
     bindE (ctor_target w) (\<lambda>t.
     bindE (ctor_wasm w) (\<lambda>m.
     let v = getInput w ''version'' in
     bindE (ctor_arch w h t v) (\<lambda>a.
     bindE (ctor_dir w) (\<lambda>d.
     Inr \<lparr> host = h, target = t, version = v, wasm = m, arch = a, dir = d,
           modules = getStringArrayInput w ''modules'',
           archives = getStringArrayInput w ''archives'',
           tools = map (replace_commas CHR '' '') (getStringArrayInput w ''tools''),
           addToolsToPath = getBoolInput w ''add-tools-to-path'',
           extra = getStringArrayInput w ''extra'',
           src = getBoolInput w ''source'',
           srcArchives = getStringArrayInput w ''src-archives'',
           doc = getBoolInput w ''documentation'',
           docArchives = getStringArrayInput w ''doc-archives'',
           docModules = getStringArrayInput w ''doc-modules'',
           example = getBoolInput w ''examples'',
           exampleArchives = getStringArrayInput w ''example-archives'',
           exampleModules = getStringArrayInput w ''example-modules'',
           installDeps = ctor_installDeps w,
           cache = getBoolInput w ''cache'',
           cacheKeyPrefix = getInput w ''cache-key-prefix'',
           isInstallQtBinaries =
             (\<not> getBoolInput w ''tools-only'' \<and> \<not> getBoolInput w ''no-qt-binaries''),
           setEnv = getBoolInput w ''set-env'',
           aqtSource = getInput w ''aqtsource'',
           aqtVersion = getInput w ''aqtversion'',
           py7zrVersion = getInput w ''py7zrversion'' \<rparr>)))))"

section \<open>The cache key\<close>

text \<open>
  The getter \<open>cacheKey\<close>. The outer loop runs over thirteen values; ten are arrays of
  strings and three are the strings \<open>this.src ? "src" : ""\<close>, \<open>this.doc ? "doc" : ""\<close> and
  \<open>this.example ? "example" : ""\<close>. The inner \<open>for ... of\<close> over a string runs over its
  characters, so a set flag adds its letters one by one.
\<close>

definition chars_of :: "string \<Rightarrow> string list" where
  "chars_of s = map (\<lambda>c. [c]) s"

definition keyStringArrays :: "World \<Rightarrow> Inputs \<Rightarrow> string list list" where
  "keyStringArrays w c =
     [ [host_str (host c), os_release w, target_str (target c), wasm_str (wasm c), arch c,
        version c, dir c, py7zrVersion c, aqtSource c, aqtVersion c],
       modules c,
       archives c,
       extra c,
       tools c,
       chars_of (if src c then ''src'' else []),
       srcArchives c,
       chars_of (if doc c then ''doc'' else []),
       docArchives c,
       docModules c,
       chars_of (if example c then ''example'' else []),
       exampleArchives c,
       exampleModules c ]"

definition add_keyString :: "string \<Rightarrow> string \<Rightarrow> string" where
  "add_keyString k keyString = (if truthy keyString then k @ ''-'' @ keyString else k)"

text \<open>Lines 244 to 277: the key as assembled, before the length check.\<close>

definition assembledKey :: "World \<Rightarrow> Inputs \<Rightarrow> string" where
  "assembledKey w c =
     replace_commas CHR ''-''
       (foldl (\<lambda>k keyStringArray. foldl add_keyString k keyStringArray)
              (cacheKeyPrefix c) (keyStringArrays w c))"

definition maxKeyLength :: nat where
  "maxKeyLength = 512"

definition cacheKey :: "World \<Rightarrow> Inputs \<Rightarrow> string" where
  "cacheKey w c =
     (let k = assembledKey w c in
      if maxKeyLength < length k then cacheKeyPrefix c @ ''-'' @ sha256_hex k else k)"

section \<open>Effects\<close>

text \<open>
  What a run does to the outside, in order: the calls of \<open>exec\<close>, \<open>execPython\<close>,
  \<open>getPythonOutput\<close> and \<open>getExecOutput\<close>, of the cache service and of \<open>core.info\<close>,
  \<open>core.warning\<close>, \<open>core.exportVariable\<close>, \<open>core.addPath\<close> and \<open>core.setOutput\<close>, each with
  its arguments. A computation is the list of the calls it made and either the error it
  threw or its value; every call is awaited before the next one starts.
\<close>

datatype event =
    Exec string
  | ExecPython string "string list"
  | GetPythonOutput string "string list"
  | GetExecOutput string "string list"
  | RestoreCache "string list" string
  | SaveCache "string list" string
  | Info string
  | Warning string
  | ExportVariable string string
  | AddPath string
  | SetOutput string string

type_synonym 'a io = "event list \<times> (error + 'a)"

definition ret :: "'a \<Rightarrow> 'a io" where
  "ret x = ([], Inr x)"

definition liftE :: "error + 'a \<Rightarrow> 'a io" where
  "liftE r = ([], r)"

definition emit :: "event \<Rightarrow> unit io" where
  "emit ev = ([ev], Inr ())"

definition bindIO :: "'a io \<Rightarrow> ('a \<Rightarrow> 'b io) \<Rightarrow> 'b io" where
  "bindIO m f =
     (case snd m of
        Inl e \<Rightarrow> (fst m, Inl e)
      | Inr x \<Rightarrow> (fst m @ fst (f x), snd (f x)))"

definition thenIO :: "'a io \<Rightarrow> 'b io \<Rightarrow> 'b io" where
  "thenIO m k = bindIO m (\<lambda>_. k)"

fun forEachIO :: "('a \<Rightarrow> unit io) \<Rightarrow> 'a list \<Rightarrow> unit io" where
  "forEachIO f [] = ret ()"
| "forEachIO f (x # xs) = thenIO (f x) (forEachIO f xs)"

text \<open>\<open>exec\<close> of the toolkit rejects when the command exits with a non-zero status.\<close>

definition exec :: "World \<Rightarrow> string \<Rightarrow> unit io" where
  "exec w commandLine =
     ([Exec commandLine],
      if exec_fails w commandLine then Inl (ExternalFailure commandLine) else Inr ())"

definition pythonCommand :: "World \<Rightarrow> string \<Rightarrow> string list \<Rightarrow> string" where
  "pythonCommand w command args =
     (if platform w = ''win32'' then ''python'' else ''python3'')
       @ '' -m '' @ command @ '' '' @ join '' '' args"

definition execPython :: "World \<Rightarrow> string \<Rightarrow> string list \<Rightarrow> unit io" where
  "execPython w command args =
     ([ExecPython command args],
      if exec_fails w (pythonCommand w command args)
      then Inl (ExternalFailure (pythonCommand w command args)) else Inr ())"

definition getPythonOutput :: "World \<Rightarrow> string \<Rightarrow> string list \<Rightarrow> string io" where
  "getPythonOutput w command args =
     ([GetPythonOutput command args], exec_output w (pythonCommand w command args))"

definition restoreCache :: "World \<Rightarrow> string list \<Rightarrow> string \<Rightarrow> string option io" where
  "restoreCache w paths key = ([RestoreCache paths key], restore_cache w paths key)"

definition saveCache :: "World \<Rightarrow> string list \<Rightarrow> string \<Rightarrow> string io" where
  "saveCache w paths key = ([SaveCache paths key], save_cache w paths key)"

text \<open>\<open>setOrAppendEnvVar\<close>. The variables it reads (\<open>LD_LIBRARY_PATH\<close>, \<open>PKG_CONFIG_PATH\<close>)
  are exported by no earlier step of the run, so \<open>process.env\<close> still holds what the
  process started with.\<close>

definition setOrAppendEnvVar :: "World \<Rightarrow> string \<Rightarrow> string \<Rightarrow> unit io" where
  "setOrAppendEnvVar w name val =
     (let oldValue = env w name;
          newValue = (case oldValue of
                        None \<Rightarrow> val
                      | Some old \<Rightarrow> if truthy old then old @ '':'' @ val else val)
      in emit (ExportVariable name newValue))"

definition binlessToolDirectories :: "string list" where
  "binlessToolDirectories = [''Conan'', ''Ninja'']"

definition toolsPaths :: "World \<Rightarrow> string \<Rightarrow> string list" where
  "toolsPaths w installDir =
     (let binlessPaths =
            filter (is_directory w)
              (map (\<lambda>d. path_join w [installDir, ''Tools'', d]) binlessToolDirectories)
      in map (\<lambda>p. path_resolve w [p])
           (concat (map (\<lambda>p. glob_sync w (installDir @ ''/'' @ p))
                      [''Tools/**/bin'', ''*.app/Contents/MacOS'', ''*.app/**/bin'',
                       ''Tools/*/*.app/Contents/MacOS'', ''Tools/*/*.app/**/bin''])
            @ binlessPaths))"

definition flaggedList :: "string \<Rightarrow> string list \<Rightarrow> string list" where
  "flaggedList flag listArgs = (if listArgs \<noteq> [] then flag # listArgs else [])"

text \<open>\<open>/^6\.\d+\.\d+$/\<close> and \<open>/^(android*|ios|wasm*|msvc*_arm64)$/\<close>: in the second, the star
  repeats the letter before it.\<close>

definition matches_qt6_version :: "string \<Rightarrow> bool" where
  "matches_qt6_version s =
     (case split_on CHR ''.'' s of
        [a, b, c] \<Rightarrow> a = ''6'' \<and> b \<noteq> [] \<and> list_all is_digit b \<and> c \<noteq> [] \<and> list_all is_digit c
      | _ \<Rightarrow> False)"

definition matches_parallel_arch :: "string \<Rightarrow> bool" where
  "matches_parallel_arch s =
     ((startsWith s ''androi'' \<and> list_all (\<lambda>c. c = CHR ''d'') (drop 6 s))
      \<or> s = ''ios''
      \<or> (startsWith s ''was'' \<and> list_all (\<lambda>c. c = CHR ''m'') (drop 3 s))
      \<or> (startsWith s ''msv'' \<and> dropWhile (\<lambda>c. c = CHR ''c'') (drop 3 s) = ''_arm64''))"

definition locateQtArchDir :: "World \<Rightarrow> string \<Rightarrow> error + string" where
  "locateQtArchDir w installDir =
     (let qtArchDirs =
            map (\<lambda>s. path_resolve w [s, ''..'', ''..''])
              (glob_sync w (installDir @ ''/[0-9]*/*/bin/qmake*''));
          requiresParallelDesktop =
            filter (\<lambda>archPath.
                      let archDir = path_basename w archPath;
                          versionDir = path_basename w (path_join w [archPath, ''..''])
                      in matches_qt6_version versionDir \<and> matches_parallel_arch archDir)
              qtArchDirs
      in case requiresParallelDesktop of
           p # _ \<Rightarrow> Inr p
         | [] \<Rightarrow>
             (case qtArchDirs of
                [] \<Rightarrow> Inl (Error (''Failed to locate a Qt installation directory in ''
                                   @ installDir))
              | q # _ \<Rightarrow> Inr q))"

text \<open>\<open>/aqtinstall\(aqt\)\s+v(\d+\.\d+\.\d+)/\<close>: the first place in the text where the
  pattern matches, and the version it captures. \<open>\s\<close> on Latin-1 is one of the code
  units 9 to 13, 32 and 160.\<close>

definition is_space :: "char \<Rightarrow> bool" where
  "is_space c = ((of_char c :: nat) \<in> {9, 10, 11, 12, 13, 32, 160})"

definition match_three_numbers :: "string \<Rightarrow> string option" where
  "match_three_numbers s =
     (let d1 = takeWhile is_digit s; r1 = dropWhile is_digit s in
      if d1 = [] \<or> \<not> startsWith r1 ''.'' then None
      else
        let d2 = takeWhile is_digit (drop 1 r1); r2 = dropWhile is_digit (drop 1 r1) in
        if d2 = [] \<or> \<not> startsWith r2 ''.'' then None
        else
          let d3 = takeWhile is_digit (drop 1 r2) in
          if d3 = [] then None else Some (d1 @ ''.'' @ d2 @ ''.'' @ d3))"

definition match_aqt_version_at :: "string \<Rightarrow> string option" where
  "match_aqt_version_at s =
     (if startsWith s ''aqtinstall(aqt)'' then
        let r = drop 15 s; sp = takeWhile is_space r; r' = dropWhile is_space r in
        if sp \<noteq> [] \<and> startsWith r' ''v'' then match_three_numbers (drop 1 r') else None
      else None)"

fun match_aqt_version :: "string \<Rightarrow> string option" where
  "match_aqt_version [] = None"
| "match_aqt_version (c # cs) =
     (case match_aqt_version_at (c # cs) of
        Some v \<Rightarrow> Some v
      | None \<Rightarrow> match_aqt_version cs)"

definition isAutodesktopSupported :: "World \<Rightarrow> bool io" where
  "isAutodesktopSupported w =
     bindIO (getPythonOutput w ''aqt'' [''version'']) (\<lambda>rawOutput.
       case match_aqt_version rawOutput of
         None \<Rightarrow> ret False
       | Some v \<Rightarrow>
           bindIO (liftE (compareVersions v Op_ge ''3.0.0'')) (\<lambda>ge.
             ret (ge \<or> startsWith v ''3.2.'')))"

section \<open>The run\<close>

text \<open>The body of \<open>run\<close>, step by step in the order of the source. Lines 300 to 340: the
  packages the Qt installer needs on Linux.\<close>

definition linuxDependencies :: "string list" where
  "linuxDependencies =
     [''build-essential'', ''libgl1-mesa-dev'', ''libgstreamer-gl1.0-0'', ''libpulse-dev'',
      ''libxcb-glx0'', ''libxcb-icccm4'', ''libxcb-image0'', ''libxcb-keysyms1'',
      ''libxcb-randr0'', ''libxcb-render-util0'', ''libxcb-render0'', ''libxcb-shape0'',
      ''libxcb-shm0'', ''libxcb-sync1'', ''libxcb-util1'', ''libxcb-xfixes0'',
      ''libxcb-xinerama0'', ''libxcb1'', ''libxkbcommon-dev'', ''libxkbcommon-x11-0'',
      ''libxcb-xkb-dev'']"

definition installDependencies :: "World \<Rightarrow> Inputs \<Rightarrow> unit io" where
  "installDependencies w inputs =
     (if platform w = ''linux'' then
        if installDeps inputs \<noteq> Deps False then
          bindIO (liftE (compareVersions (version inputs) Op_ge ''6.5.0'')) (\<lambda>ge.
            let dependencies = linuxDependencies @ (if ge then [''libxcb-cursor0''] else []);
                updateCommand = ''apt-get update'';
                installCommand = ''apt-get install '' @ join '' '' dependencies @ '' -y''
            in if installDeps inputs = Nosudo then
                 thenIO (exec w updateCommand) (exec w installCommand)
               else
                 thenIO (exec w (''sudo '' @ updateCommand)) (exec w (''sudo '' @ installCommand)))
        else ret ()
      else ret ())"

text \<open>Lines 342 to 351: the value of \<open>internalCacheHit\<close>.\<close>

definition restoreFromCache :: "World \<Rightarrow> Inputs \<Rightarrow> bool io" where
  "restoreFromCache w inputs =
     (if cache inputs then
        bindIO (restoreCache w [dir inputs] (cacheKey w inputs)) (\<lambda>cacheHitKey.
          case cacheHitKey of
            None \<Rightarrow> thenIO (emit (Info ''Automatic cache miss, will cache this run'')) (ret False)
          | Some k \<Rightarrow>
              if truthy k then
                thenIO (emit (Info (''Automatic cache hit with key '' @ dq @ k @ dq))) (ret True)
              else
                thenIO (emit (Info ''Automatic cache miss, will cache this run'')) (ret False))
      else ret False)"

text \<open>Lines 353 to 385: \<open>getLatestCompatibleVersion\<close>. The \<open>try\<close> block lists the remote
  tags and returns the highest one that matches (field \<open>latest_tag\<close>); the \<open>catch\<close>
  block warns and returns the constraint without its \<open>=\<close> and its first \<open>*\<close>, followed
  by \<open>.0\<close>.\<close>

definition targetVersion :: "string \<Rightarrow> string" where
  "targetVersion v = remove1 CHR ''*'' (filter (\<lambda>c. c \<noteq> CHR ''='') v)"

definition getLatestCompatibleVersion :: "World \<Rightarrow> string \<Rightarrow> string io" where
  "getLatestCompatibleVersion w v =
     thenIO (emit (GetExecOutput ''git''
                     [''ls-remote'', ''--tags'', ''--sort=-v:refname'',
                      ''https://github.com/Kidev/aqtinstall.git'']))
       (case latest_tag w v of
          Inr found \<Rightarrow> ret found
        | Inl err \<Rightarrow>
            thenIO (emit (Warning (''Failed to fetch version tags: '' @ err
                                   @ ''. Using fallback version.'')))
                   (ret (targetVersion v @ ''.0'')))"

text \<open>Lines 389 to 405: the installer itself.\<close>

definition installAqt :: "World \<Rightarrow> Inputs \<Rightarrow> unit io" where
  "installAqt w inputs =
     thenIO (execPython w ''pip install''
               [''setuptools'', ''wheel'', dq @ ''py7zr'' @ py7zrVersion inputs @ dq])
       (if 0 < length (aqtSource inputs) then
          execPython w ''pip install'' [dq @ aqtSource inputs @ dq]
        else if str_includes (aqtVersion inputs) ''*'' then
          bindIO (getLatestCompatibleVersion w (aqtVersion inputs)) (\<lambda>v.
            thenIO (emit (Info (''Installing Kidev'' @ [CHR 0x27] @ ''s aqtinstall version '' @ v)))
              (execPython w ''pip install''
                 [dq @ ''git+https://github.com/Kidev/aqtinstall.git@v'' @ v @ dq]))
        else
          execPython w ''pip install'' [dq @ ''aqtinstall'' @ aqtVersion inputs @ dq])"

text \<open>Lines 410 to 419: the arguments of \<open>install-qt\<close> before the WASM step.\<close>

definition qtArgs_initial :: "Inputs \<Rightarrow> string list \<Rightarrow> string list" where
  "qtArgs_initial inputs autodesktop =
     [host_str (host inputs), target_str (target inputs), version inputs]
       @ (if truthy (arch inputs) then [arch inputs] else [])
       @ autodesktop
       @ [''--outputdir'', dir inputs]
       @ flaggedList ''--modules'' (modules inputs)
       @ flaggedList ''--archives'' (archives inputs)"

definition usingKidevFork :: "Inputs \<Rightarrow> bool" where
  "usingKidevFork inputs =
     (str_includes (aqtSource inputs) ''Kidev/aqtinstall'' \<or> aqtVersion inputs = ''==3.2.*'')"

text \<open>Lines 421 to 435: what the WASM step pushes onto \<open>qtArgs\<close>. The first condition
  compares the version before it looks at the fork; the last branch compares again.\<close>

definition wasmConfiguration :: "Inputs \<Rightarrow> string list io" where
  "wasmConfiguration inputs =
     (if wasm inputs \<noteq> WasmNone then
        bindIO (liftE (compareVersions (version inputs) Op_ge ''6.7.0'')) (\<lambda>ge.
          if ge \<and> usingKidevFork inputs then ret [''--wasm'', wasm_str (wasm inputs)]
          else if \<not> usingKidevFork inputs then
            thenIO (emit (Warning (''WASM support requires Kidev'' @ [CHR 0x27]
                      @ ''s fork of aqtinstall (version 3.2.* or higher)'')))
                   (ret [])
          else
            bindIO (liftE (compareVersions (version inputs) Op_ge ''6.7.0'')) (\<lambda>ge'.
              if \<not> ge' then
                thenIO (emit (Warning ''WASM support requires Qt 6.7.0 or higher'')) (ret [])
              else ret []))
      else ret [])"

text \<open>Lines 409 to 439.\<close>

definition installQt :: "World \<Rightarrow> Inputs \<Rightarrow> string list \<Rightarrow> unit io" where
  "installQt w inputs autodesktop =
     (if isInstallQtBinaries inputs then
        bindIO (wasmConfiguration inputs) (\<lambda>wasmArgs.
          execPython w ''aqt install-qt''
            (qtArgs_initial inputs autodesktop @ wasmArgs @ extra inputs))
      else ret ())"

text \<open>Lines 441 to 465.\<close>

definition installSrcDocExamples ::
  "World \<Rightarrow> Inputs \<Rightarrow> string \<Rightarrow> string list \<Rightarrow> string list \<Rightarrow> unit io" where
  "installSrcDocExamples w inputs flavor archs mods =
     execPython w (''aqt install-'' @ flavor)
       ([host_str (host inputs), version inputs, ''--outputdir'', dir inputs]
          @ flaggedList ''--archives'' archs
          @ flaggedList ''--modules'' mods
          @ extra inputs)"

text \<open>Lines 467 to 477.\<close>

definition installTools :: "World \<Rightarrow> Inputs \<Rightarrow> unit io" where
  "installTools w inputs =
     forEachIO (\<lambda>tool.
         execPython w ''aqt install-tool''
           ([host_str (host inputs), target_str (target inputs), tool,
             ''--outputdir'', dir inputs] @ extra inputs))
       (tools inputs)"

text \<open>Lines 389 to 477: the body of \<open>if (!internalCacheHit)\<close>.\<close>

definition install :: "World \<Rightarrow> Inputs \<Rightarrow> unit io" where
  "install w inputs =
     thenIO (installAqt w inputs)
    (bindIO (isAutodesktopSupported w) (\<lambda>supported.
       let autodesktop = (if supported then [''--autodesktop''] else []) in
     thenIO (installQt w inputs autodesktop)
    (thenIO (if src inputs
             then installSrcDocExamples w inputs ''src'' (srcArchives inputs) []
             else ret ())
    (thenIO (if doc inputs
             then installSrcDocExamples w inputs ''doc'' (docArchives inputs) (docModules inputs)
             else ret ())
    (thenIO (if example inputs
             then installSrcDocExamples w inputs ''example''
                    (exampleArchives inputs) (exampleModules inputs)
             else ret ())
            (installTools w inputs))))))"

text \<open>Lines 480 to 483.\<close>

definition saveToCache :: "World \<Rightarrow> Inputs \<Rightarrow> bool \<Rightarrow> unit io" where
  "saveToCache w inputs internalCacheHit =
     (if \<not> internalCacheHit \<and> cache inputs then
        bindIO (saveCache w [dir inputs] (cacheKey w inputs)) (\<lambda>cacheId.
          emit (Info (''Automatic cache saved with id '' @ cacheId)))
      else ret ())"

text \<open>Lines 485 to 491.\<close>

definition addTools :: "World \<Rightarrow> Inputs \<Rightarrow> unit io" where
  "addTools w inputs =
     (if addToolsToPath inputs \<and> tools inputs \<noteq> [] then
        forEachIO (\<lambda>p. emit (AddPath p)) (toolsPaths w (dir inputs))
      else ret ())"

definition exportTools :: "World \<Rightarrow> Inputs \<Rightarrow> unit io" where
  "exportTools w inputs =
     (if tools inputs \<noteq> [] \<and> setEnv inputs then
        emit (ExportVariable ''IQTA_TOOLS'' (path_resolve w [dir inputs, ''Tools'']))
      else ret ())"

text \<open>Lines 497 to 511: the body of \<open>if (inputs.setEnv)\<close>.\<close>

definition publishEnv :: "World \<Rightarrow> Inputs \<Rightarrow> string \<Rightarrow> unit io" where
  "publishEnv w inputs qtPath =
     thenIO (if platform w = ''linux''
             then setOrAppendEnvVar w ''LD_LIBRARY_PATH'' (path_resolve w [qtPath, ''lib''])
             else ret ())
    (thenIO (if platform w \<noteq> ''win32''
             then setOrAppendEnvVar w ''PKG_CONFIG_PATH''
                    (path_resolve w [qtPath, ''lib'', ''pkgconfig''])
             else ret ())
    (bindIO (liftE (compareVersions (version inputs) Op_lt ''6.0.0'')) (\<lambda>lt.
     thenIO (if lt
             then emit (ExportVariable ''Qt5_DIR'' (path_resolve w [qtPath, ''lib'', ''cmake'']))
             else ret ())
    (thenIO (emit (ExportVariable ''QT_ROOT_DIR'' qtPath))
    (thenIO (emit (ExportVariable ''QT_PLUGIN_PATH'' (path_resolve w [qtPath, ''plugins''])))
    (thenIO (emit (ExportVariable ''QML2_IMPORT_PATH'' (path_resolve w [qtPath, ''qml''])))
            (emit (AddPath (path_resolve w [qtPath, ''bin''])))))))))"

text \<open>Lines 493 to 512.\<close>

definition publishQt :: "World \<Rightarrow> Inputs \<Rightarrow> unit io" where
  "publishQt w inputs =
     (if isInstallQtBinaries inputs then
        bindIO (liftE (locateQtArchDir w (dir inputs))) (\<lambda>qtPath.
          thenIO (emit (SetOutput ''qtPath'' qtPath))
                 (if setEnv inputs then publishEnv w inputs qtPath else ret ()))
      else ret ())"

text \<open>Lines 296 to 512, after the constructor.\<close>

definition run_with :: "World \<Rightarrow> Inputs \<Rightarrow> unit io" where
  "run_with w inputs =
     thenIO (installDependencies w inputs)
    (bindIO (restoreFromCache w inputs) (\<lambda>internalCacheHit.
     thenIO (if \<not> internalCacheHit then install w inputs else ret ())
    (thenIO (saveToCache w inputs internalCacheHit)
    (thenIO (addTools w inputs)
    (thenIO (exportTools w inputs)
            (publishQt w inputs))))))"

definition run :: "World \<Rightarrow> unit io" where
  "run w = bindIO (liftE (Inputs_new w)) (\<lambda>inputs. run_with w inputs)"

section \<open>Vocabulary of the properties\<close>





text \<open>Equal to \<open>"true"\<close> up to the case of the letters.\<close>

definition true_ignoring_case :: "string \<Rightarrow> bool" where
  "true_ignoring_case s =
     (case s of
        [a, b, c, d] \<Rightarrow>
          (a = CHR ''t'' \<or> a = CHR ''T'') \<and> (b = CHR ''r'' \<or> b = CHR ''R'')
          \<and> (c = CHR ''u'' \<or> c = CHR ''U'') \<and> (d = CHR ''e'' \<or> d = CHR ''E'')
      | _ \<Rightarrow> False)"

text \<open>The string is made of lowercase hexadecimal digits.\<close>

definition lower_hex :: "string \<Rightarrow> bool" where
  "lower_hex s = list_all (\<lambda>c. c \<in> set ''0123456789abcdef'') s"

text \<open>Kinds of calls in a trace.\<close>

fun is_install_qt :: "event \<Rightarrow> bool" where
  "is_install_qt (ExecPython command args) = (command = ''aqt install-qt'')"
| "is_install_qt _ = False"

fun is_install_tool :: "event \<Rightarrow> bool" where
  "is_install_tool (ExecPython command args) = (command = ''aqt install-tool'')"
| "is_install_tool _ = False"

fun exports :: "string \<Rightarrow> event \<Rightarrow> bool" where
  "exports n (ExportVariable name v) = (name = n)"
| "exports n _ = False"

fun sets_output :: "string \<Rightarrow> event \<Rightarrow> bool" where
  "sets_output n (SetOutput name v) = (name = n)"
| "sets_output n _ = False"

definition emits_only :: "(event \<Rightarrow> bool) \<Rightarrow> 'a io \<Rightarrow> bool" where
  "emits_only Q m = list_all Q (fst m)"

text \<open>The value \<open>internalCacheHit\<close> takes when the cache service answers: the cache is
  enabled and the service returns a non-empty key.\<close>

definition cache_hit :: "World \<Rightarrow> Inputs \<Rightarrow> bool" where
  "cache_hit w c =
     (cache c \<and>
      (case restore_cache w [dir c] (cacheKey w c) of
         Inr (Some k) \<Rightarrow> truthy k
       | _ \<Rightarrow> False))"

text \<open>The list-valued inputs: the name of each raw input with the sequence resolved
  from it.\<close>

definition list_inputs :: "Inputs \<Rightarrow> (string \<times> string list) list" where
  "list_inputs c =
     [(''modules'', modules c), (''archives'', archives c), (''tools'', tools c),
      (''extra'', extra c), (''src-archives'', srcArchives c),
      (''doc-modules'', docModules c), (''doc-archives'', docArchives c),
      (''example-modules'', exampleModules c), (''example-archives'', exampleArchives c)]"

text \<open>Calls that are neither an \<open>execPython\<close>, nor an exported variable, nor an output.\<close>

fun plain :: "event \<Rightarrow> bool" where
  "plain (ExecPython command args) = False"
| "plain (ExportVariable name v) = False"
| "plain (SetOutput name v) = False"
| "plain _ = True"

section \<open>Example environments\<close>

text \<open>A Linux runner: raw inputs from a table, POSIX paths resolved from the root, one
  installed Qt directory, every command succeeding, no cache entry.\<close>

definition input_table :: "(string \<times> string) list \<Rightarrow> string \<Rightarrow> string" where
  "input_table raw name = (case map_of raw name of None \<Rightarrow> [] | Some v \<Rightarrow> v)"

fun posix_segments :: "string list \<Rightarrow> string list \<Rightarrow> string list" where
  "posix_segments acc [] = rev acc"
| "posix_segments acc (s # ss) =
     (if s = [] \<or> s = ''.'' then posix_segments acc ss
      else if s = ''..'' then posix_segments (tl acc) ss
      else posix_segments (s # acc) ss)"

definition posix_resolve :: "string list \<Rightarrow> string" where
  "posix_resolve ps =
     CHR ''/'' # join ''/'' (posix_segments [] (concat (map (split_on CHR ''/'') ps)))"

definition example_world :: "(string \<times> string) list \<Rightarrow> World" where
  "example_world raw =
     \<lparr> getInput = input_table raw,
       platform = ''linux'',
       env = (\<lambda>n. if n = ''LD_LIBRARY_PATH'' then Some ''/opt/lib'' else None),
       os_release = ''6.5.0'',
       path_resolve = posix_resolve,
       path_join = posix_resolve,
       path_basename = (\<lambda>p. last (split_on CHR ''/'' p)),
       glob_sync = (\<lambda>p. if p = ''/w/Qt/[0-9]*/*/bin/qmake*''
                          then [''/w/Qt/6.8.0/gcc_64/bin/qmake''] else []),
       is_directory = (\<lambda>p. False),
       exec_fails = (\<lambda>commandLine. False),
       exec_output = (\<lambda>commandLine. Inr ''aqtinstall(aqt) v3.1.18 on Python 3.10''),
       latest_tag = (\<lambda>v. Inr ''3.1.18''),
       restore_cache = (\<lambda>paths key. Inr None),
       save_cache = (\<lambda>paths key. Inr ''42'') \<rparr>"

definition example_raw :: "(string \<times> string) list" where
  "example_raw =
     [(''target'', ''desktop''), (''wasm'', ''none''), (''version'', ''6.8.0''),
      (''dir'', ''/w''), (''cache-key-prefix'', ''install-qt-action''),
      (''set-env'', ''true''), (''aqtversion'', ''==3.1.*'')]"

text \<open>The configuration the constructor resolves from \<open>example_raw\<close> on this runner.\<close>

definition example_config :: Inputs where
  "example_config =
     \<lparr> host = Linux, target = Desktop, version = ''6.8.0'', wasm = WasmNone,
       arch = [], dir = ''/w/Qt'', modules = [], archives = [], tools = [],
       addToolsToPath = False, extra = [], src = False, srcArchives = [],
       doc = False, docArchives = [], docModules = [], example = False,
       exampleArchives = [], exampleModules = [], installDeps = Deps False,
       cache = False, cacheKeyPrefix = ''install-qt-action'',
       isInstallQtBinaries = True, setEnv = True, aqtSource = [],
       aqtVersion = ''==3.1.*'', py7zrVersion = [] \<rparr>"

text \<open>The same runner with a cache entry for every key: the service returns the key it was
  asked for.\<close>

definition cache_hit_world :: "(string \<times> string) list \<Rightarrow> World" where
  "cache_hit_world raw = (example_world raw)\<lparr>restore_cache := (\<lambda>paths key. Inr (Some key))\<rparr>"


section \<open>Evaluating the examples\<close>

lemma input_table_simps [simp]:
  "input_table [] n = []"
  "input_table ((k, v) # raw) n = (if n = k then v else input_table raw n)"
  by (simp_all add: input_table_def)

lemma example_world_simps [simp]:
  "getInput (example_world raw) = input_table raw"
  "platform (example_world raw) = ''linux''"
  "env (example_world raw) = (\<lambda>n. if n = ''LD_LIBRARY_PATH'' then Some ''/opt/lib'' else None)"
  "os_release (example_world raw) = ''6.5.0''"
  "path_resolve (example_world raw) = posix_resolve"
  "path_join (example_world raw) = posix_resolve"
  "path_basename (example_world raw) = (\<lambda>p. last (split_on CHR ''/'' p))"
  "glob_sync (example_world raw) =
     (\<lambda>p. if p = ''/w/Qt/[0-9]*/*/bin/qmake*'' then [''/w/Qt/6.8.0/gcc_64/bin/qmake''] else [])"
  "is_directory (example_world raw) = (\<lambda>p. False)"
  "exec_fails (example_world raw) = (\<lambda>commandLine. False)"
  "exec_output (example_world raw) = (\<lambda>commandLine. Inr ''aqtinstall(aqt) v3.1.18 on Python 3.10'')"
  "latest_tag (example_world raw) = (\<lambda>v. Inr ''3.1.18'')"
  "restore_cache (example_world raw) = (\<lambda>paths key. Inr None)"
  "save_cache (example_world raw) = (\<lambda>paths key. Inr ''42'')"
  by (simp_all add: example_world_def)

lemma cache_hit_world_simps [simp]:
  "getInput (cache_hit_world raw) = input_table raw"
  "platform (cache_hit_world raw) = ''linux''"
  "env (cache_hit_world raw) = (\<lambda>n. if n = ''LD_LIBRARY_PATH'' then Some ''/opt/lib'' else None)"
  "os_release (cache_hit_world raw) = ''6.5.0''"
  "path_resolve (cache_hit_world raw) = posix_resolve"
  "path_join (cache_hit_world raw) = posix_resolve"
  "path_basename (cache_hit_world raw) = (\<lambda>p. last (split_on CHR ''/'' p))"
  "glob_sync (cache_hit_world raw) =
     (\<lambda>p. if p = ''/w/Qt/[0-9]*/*/bin/qmake*'' then [''/w/Qt/6.8.0/gcc_64/bin/qmake''] else [])"
  "exec_fails (cache_hit_world raw) = (\<lambda>commandLine. False)"
  "restore_cache (cache_hit_world raw) = (\<lambda>paths key. Inr (Some key))"
  by (simp_all add: cache_hit_world_def)

lemmas ctor_defs =
  Inputs_new_def bindE_def ctor_host_def ctor_target_def ctor_wasm_def ctor_arch_def
  ctor_dir_def ctor_installDeps_def getBoolInput_def getStringArrayInput_def truthy_def
  toLowerCase_def lower_char_def posix_resolve_def Let_def

lemma Inputs_new_example: "Inputs_new (example_world example_raw) = Inr example_config"
  by (simp add: ctor_defs example_raw_def example_config_def)


lemma length_assembledKey_example:
  "length (assembledKey (example_world raw) (example_config\<lparr>cacheKeyPrefix := p\<rparr>))
   = length p + 45"
  by (simp add: assembledKey_def keyStringArrays_def example_config_def add_keyString_def
        truthy_def replace_commas_def chars_of_def)

lemma locate_example: "locateQtArchDir (example_world raw) ''/w/Qt'' = Inr ''/w/Qt/6.8.0/gcc_64''"
  by (simp add: locateQtArchDir_def posix_resolve_def matches_qt6_version_def
        matches_parallel_arch_def is_digit_def Let_def)

lemma locate_hit: "locateQtArchDir (cache_hit_world raw) ''/w/Qt'' = Inr ''/w/Qt/6.8.0/gcc_64''"
  by (simp add: locateQtArchDir_def posix_resolve_def matches_qt6_version_def
        matches_parallel_arch_def is_digit_def Let_def)

lemma match_example:
  "match_aqt_version ''aqtinstall(aqt) v3.1.18 on Python 3.10'' = Some ''3.1.18''"
  by (simp add: match_aqt_version_at_def match_three_numbers_def is_space_def is_digit_def Let_def)

lemma compare_example:
  "compareVersions ''3.1.18'' Op_ge ''3.0.0'' = Inr True"
  "compareVersions ''6.8.0'' Op_lt ''6.0.0'' = Inr False"
  by (simp_all add: compareVersions_def compare_def validateAndParse_def is_digit_def
        nat_of_digits_def)


section \<open>The digest\<close>

lemma hex_digit_lower: "n < 16 \<Longrightarrow> hex_digit n \<in> set ''0123456789abcdef''"
proof -
  assume "n < 16"
  then have "n < length ''0123456789abcdef''" by simp
  then show ?thesis unfolding hex_digit_def by (rule nth_mem)
qed

lemma nibble_less: "unat ((x :: 32 word) AND 15) < 16"
proof -
  have "x AND 15 \<le> 15" by (rule word_and_le1)
  then have "unat (x AND 15) \<le> unat (15 :: 32 word)" by (simp add: word_le_nat_alt)
  then show ?thesis by simp
qed

lemma length_hex32: "length (hex32 x) = 8"
  by (simp add: hex32_def)

lemma lower_hex_hex32: "lower_hex (hex32 x)"
  by (simp add: hex32_def lower_hex_def hex_digit_lower nibble_less del: set_simps)

lemma lower_hex_append: "lower_hex (xs @ ys) = (lower_hex xs \<and> lower_hex ys)"
  by (simp add: lower_hex_def)

lemma sha_state_cases:
  obtains a b c d e f g h where "(st :: sha_state) = (a, b, c, d, e, f, g, h)"
  by (metis surj_pair)

lemma length_sha256_hex: "length (sha256_hex s) = 64"
  by (rule sha_state_cases[of "sha256 (utf8 s)"]) (simp add: sha256_hex_def length_hex32)

lemma lower_hex_sha256_hex: "lower_hex (sha256_hex s)"
  by (rule sha_state_cases[of "sha256 (utf8 s)"])
     (simp add: sha256_hex_def lower_hex_append lower_hex_hex32)

section \<open>Facts about strings\<close>





lemma of_char_lower_char:
  "(of_char (lower_char c) :: nat) =
     (if (65 \<le> (of_char c :: nat) \<and> (of_char c :: nat) \<le> 90)
         \<or> (192 \<le> (of_char c :: nat) \<and> (of_char c :: nat) \<le> 222 \<and> (of_char c :: nat) \<noteq> 215)
      then of_char c + 32 else of_char c)"
  by (auto simp: lower_char_def Let_def)

lemma char_eq_code: "(c = d) = ((of_char c :: nat) = of_char d)"
  by simp

lemma lower_char_true:
  "(lower_char c = CHR ''t'') = (c = CHR ''t'' \<or> c = CHR ''T'')"
  "(lower_char c = CHR ''r'') = (c = CHR ''r'' \<or> c = CHR ''R'')"
  "(lower_char c = CHR ''u'') = (c = CHR ''u'' \<or> c = CHR ''U'')"
  "(lower_char c = CHR ''e'') = (c = CHR ''e'' \<or> c = CHR ''E'')"
  unfolding char_eq_code[of "lower_char c"] char_eq_code[of c] of_char_lower_char
  by (simp_all, presburger+)

lemma toLowerCase_true: "(toLowerCase s = ''true'') = true_ignoring_case s"
  by (auto simp: toLowerCase_def true_ignoring_case_def lower_char_true
        split: list.splits)

lemma getBoolInput_iff: "getBoolInput w name = true_ignoring_case (getInput w name)"
  by (simp add: getBoolInput_def toLowerCase_true)


section \<open>Facts about version comparison\<close>



lemma validateAndParse_empty: "validateAndParse [] = None"
  by (simp add: validateAndParse_def)






lemma compareVersions_empty: "\<exists>e. compareVersions [] op lit = Inl e"
  by (simp add: compareVersions_def compare_def validateAndParse_empty)

lemma compareVersions_error: "compareVersions v op lit = Inl e \<Longrightarrow> \<exists>m. e = Error m"
  by (auto simp: compareVersions_def compare_def split: option.splits)

section \<open>The constructor, step by step\<close>

lemma Inputs_new_Inr:
  assumes "Inputs_new w = Inr c"
  shows "ctor_host w = Inr (host c)" "ctor_target w = Inr (target c)" "ctor_wasm w = Inr (wasm c)"
    "version c = getInput w ''version''"
    "ctor_arch w (host c) (target c) (getInput w ''version'') = Inr (arch c)"
    "ctor_dir w = Inr (dir c)"
    "tools c = map (replace_commas CHR '' '') (getStringArrayInput w ''tools'')"
    "isInstallQtBinaries c =
       (\<not> getBoolInput w ''tools-only'' \<and> \<not> getBoolInput w ''no-qt-binaries'')"
    "list_inputs c =
       [(''modules'', getStringArrayInput w ''modules''),
        (''archives'', getStringArrayInput w ''archives''),
        (''tools'', map (replace_commas CHR '' '') (getStringArrayInput w ''tools'')),
        (''extra'', getStringArrayInput w ''extra''),
        (''src-archives'', getStringArrayInput w ''src-archives''),
        (''doc-modules'', getStringArrayInput w ''doc-modules''),
        (''doc-archives'', getStringArrayInput w ''doc-archives''),
        (''example-modules'', getStringArrayInput w ''example-modules''),
        (''example-archives'', getStringArrayInput w ''example-archives'')]"
  using assms
  by (auto simp: Inputs_new_def bindE_def Let_def list_inputs_def split: sum.splits)

lemma Inputs_new_Inl:
  "ctor_host w = Inl e \<Longrightarrow> Inputs_new w = Inl e"
  "ctor_host w = Inr h \<Longrightarrow> ctor_target w = Inl e \<Longrightarrow> Inputs_new w = Inl e"
  "ctor_host w = Inr h \<Longrightarrow> ctor_target w = Inr t \<Longrightarrow> ctor_wasm w = Inl e \<Longrightarrow> Inputs_new w = Inl e"
  "ctor_host w = Inr h \<Longrightarrow> ctor_target w = Inr t \<Longrightarrow> ctor_wasm w = Inr m \<Longrightarrow>
     ctor_arch w h t (getInput w ''version'') = Inl e \<Longrightarrow> Inputs_new w = Inl e"
  "ctor_host w = Inr h \<Longrightarrow> ctor_target w = Inr t \<Longrightarrow> ctor_wasm w = Inr m \<Longrightarrow>
     ctor_arch w h t (getInput w ''version'') = Inr a \<Longrightarrow> ctor_dir w = Inl e \<Longrightarrow>
     Inputs_new w = Inl e"
  by (simp_all add: Inputs_new_def bindE_def Let_def)

lemma Inputs_new_Inl_cases:
  assumes "Inputs_new w = Inl e"
  shows "ctor_host w = Inl e \<or> ctor_target w = Inl e \<or> ctor_wasm w = Inl e
         \<or> (\<exists>h t. ctor_arch w h t (getInput w ''version'') = Inl e) \<or> ctor_dir w = Inl e"
  using assms by (auto simp: Inputs_new_def bindE_def Let_def split: sum.splits)

lemma ctor_host_cases:
  "getInput w ''host'' \<in> {[], ''windows'', ''mac'', ''linux''} \<Longrightarrow> \<exists>h. ctor_host w = Inr h"
  "getInput w ''host'' \<notin> {[], ''windows'', ''mac'', ''linux''} \<Longrightarrow>
     ctor_host w = Inl (TypeError (''host: '' @ dq @ getInput w ''host'' @ dq @ '' is not one of ''
        @ dq @ ''windows'' @ dq @ '' | '' @ dq @ ''mac'' @ dq @ '' | '' @ dq @ ''linux'' @ dq))"
  by (auto simp: ctor_host_def truthy_def Let_def)

lemma ctor_host_empty:
  "getInput w ''host'' = [] \<Longrightarrow>
     ctor_host w = Inr (if platform w = ''win32'' then Windows
                        else if platform w = ''darwin'' then Mac else Linux)"
  by (simp add: ctor_host_def truthy_def)

lemma ctor_host_windows:
  "ctor_host w = Inr h \<Longrightarrow>
     (h = Windows) = (getInput w ''host'' = ''windows''
                      \<or> (getInput w ''host'' = [] \<and> platform w = ''win32''))"
  by (auto simp: ctor_host_def truthy_def Let_def split: if_splits)

lemma ctor_target_cases:
  "getInput w ''target'' \<in> {''desktop'', ''android'', ''ios''} \<Longrightarrow> \<exists>t. ctor_target w = Inr t"
  "getInput w ''target'' \<notin> {''desktop'', ''android'', ''ios''} \<Longrightarrow>
     ctor_target w = Inl (TypeError (''target: '' @ dq @ getInput w ''target'' @ dq
        @ '' is not one of '' @ dq @ ''desktop'' @ dq @ '' | '' @ dq @ ''android'' @ dq
        @ '' | '' @ dq @ ''ios'' @ dq))"
  by (auto simp: ctor_target_def Let_def)

lemma ctor_target_android:
  "ctor_target w = Inr t \<Longrightarrow> (t = Android) = (getInput w ''target'' = ''android'')"
  by (auto simp: ctor_target_def Let_def split: if_splits)

lemma ctor_wasm_cases:
  "getInput w ''wasm'' \<in> {''none'', ''singlethread'', ''multithread''} \<Longrightarrow> \<exists>m. ctor_wasm w = Inr m"
  "getInput w ''wasm'' \<notin> {''none'', ''singlethread'', ''multithread''} \<Longrightarrow>
     ctor_wasm w = Inl (TypeError (''wasm: '' @ dq @ getInput w ''wasm'' @ dq
        @ '' is not one of '' @ dq @ ''none'' @ dq @ '' | '' @ dq @ ''singlethread'' @ dq
        @ '' | '' @ dq @ ''multithread'' @ dq))"
  by (auto simp: ctor_wasm_def Let_def)

lemma ctor_dir_cases:
  "getInput w ''dir'' \<noteq> [] \<or> (\<exists>d. env w ''RUNNER_WORKSPACE'' = Some d \<and> d \<noteq> []) \<Longrightarrow>
     \<exists>d. ctor_dir w = Inr d"
  "\<not> (getInput w ''dir'' \<noteq> [] \<or> (\<exists>d. env w ''RUNNER_WORKSPACE'' = Some d \<and> d \<noteq> [])) \<Longrightarrow>
     \<exists>e. ctor_dir w = Inl e"
  by (auto simp: ctor_dir_def truthy_def Let_def split: option.splits)


lemma ctor_arch_no_comparison:
  "getInput w ''arch'' \<noteq> [] \<or> (t \<noteq> Android \<and> h \<noteq> Windows) \<Longrightarrow>
     ctor_arch w h t v = Inr (getInput w ''arch'')"
  by (auto simp: ctor_arch_def truthy_def Let_def)

lemma ctor_arch_empty_version:
  "getInput w ''arch'' = [] \<Longrightarrow> t = Android \<or> h = Windows \<Longrightarrow> \<exists>e. ctor_arch w h t [] = Inl e"
  using compareVersions_empty[of Op_ge "''5.14.0''"] compareVersions_empty[of Op_ge "''6.8.0''"]
  by (auto simp: ctor_arch_def truthy_def Let_def bindE_def)

lemma ctor_target_error: "ctor_target w = Inl (TypeError msg) \<Longrightarrow> \<not> startsWith msg ''host: ''"
  by (auto simp: ctor_target_def Let_def split: if_splits)

lemma ctor_wasm_error: "ctor_wasm w = Inl (TypeError msg) \<Longrightarrow> \<not> startsWith msg ''host: ''"
  by (auto simp: ctor_wasm_def Let_def split: if_splits)

lemma ctor_dir_error: "ctor_dir w = Inl (TypeError msg) \<Longrightarrow> \<not> startsWith msg ''host: ''"
  by (auto simp: ctor_dir_def Let_def dq_def split: if_splits)

lemma ctor_arch_error: "ctor_arch w h t v = Inl e \<Longrightarrow> \<exists>m. e = Error m"
  by (auto simp: ctor_arch_def Let_def bindE_def split: if_splits sum.splits
        dest: compareVersions_error)

lemma tools_empty:
  assumes "Inputs_new w = Inr c" "getInput w ''tools'' = []"
  shows "tools c = []"
  using Inputs_new_Inr(7)[OF assms(1)] assms(2)
  by (simp add: getStringArrayInput_def truthy_def)

section \<open>Computations and their traces\<close>

lemma fst_ret: "fst (ret x) = []" and snd_ret: "snd (ret x) = Inr x"
  by (simp_all add: ret_def)

lemma fst_liftE: "fst (liftE r) = []" and snd_liftE: "snd (liftE r) = r"
  by (simp_all add: liftE_def)

lemma fst_emit: "fst (emit ev) = [ev]" and snd_emit: "snd (emit ev) = Inr ()"
  by (simp_all add: emit_def)

lemma fst_bindIO:
  "fst (bindIO m f) = fst m @ (case snd m of Inl e \<Rightarrow> [] | Inr x \<Rightarrow> fst (f x))"
  by (simp add: bindIO_def split: sum.splits)

lemma snd_bindIO:
  "snd (bindIO m f) = (case snd m of Inl e \<Rightarrow> Inl e | Inr x \<Rightarrow> snd (f x))"
  by (simp add: bindIO_def split: sum.splits)

lemma fst_thenIO:
  "fst (thenIO m k) = fst m @ (case snd m of Inl e \<Rightarrow> [] | Inr x \<Rightarrow> fst k)"
  by (simp add: thenIO_def fst_bindIO)

lemma snd_thenIO:
  "snd (thenIO m k) = (case snd m of Inl e \<Rightarrow> Inl e | Inr x \<Rightarrow> snd k)"
  by (simp add: thenIO_def snd_bindIO)

lemma fst_execPython: "fst (execPython w command args) = [ExecPython command args]"
  by (simp add: execPython_def)

lemmas io_simps =
  fst_ret snd_ret fst_liftE snd_liftE fst_emit snd_emit fst_bindIO snd_bindIO fst_thenIO
  snd_thenIO fst_execPython

lemma snd_execPython:
  "\<not> exec_fails w (pythonCommand w command args) \<Longrightarrow> snd (execPython w command args) = Inr ()"
  by (simp add: execPython_def)

lemma snd_forEachIO: "(\<And>x. snd (f x) = Inr ()) \<Longrightarrow> snd (forEachIO f xs) = Inr ()"
  by (induction xs) (simp_all add: io_simps)


lemma fst_setOrAppendEnvVar:
  "fst (setOrAppendEnvVar w name val) =
     [ExportVariable name (case env w name of None \<Rightarrow> val
                           | Some old \<Rightarrow> if old = [] then val else old @ '':'' @ val)]"
  by (simp add: setOrAppendEnvVar_def Let_def truthy_def fst_emit split: option.splits)

lemma snd_setOrAppendEnvVar: "snd (setOrAppendEnvVar w name val) = Inr ()"
  by (simp add: setOrAppendEnvVar_def Let_def snd_emit)

lemma emits_only_ret: "emits_only Q (ret x)"
  by (simp add: emits_only_def fst_ret)

lemma emits_only_liftE: "emits_only Q (liftE r)"
  by (simp add: emits_only_def fst_liftE)

lemma emits_only_emit: "Q ev \<Longrightarrow> emits_only Q (emit ev)"
  by (simp add: emits_only_def fst_emit)

lemma emits_only_bindIO:
  "emits_only Q m \<Longrightarrow> (\<And>x. snd m = Inr x \<Longrightarrow> emits_only Q (f x)) \<Longrightarrow> emits_only Q (bindIO m f)"
  by (simp add: emits_only_def fst_bindIO split: sum.splits)

lemma emits_only_thenIO:
  "emits_only Q m \<Longrightarrow> emits_only Q k \<Longrightarrow> emits_only Q (thenIO m k)"
  by (simp add: thenIO_def emits_only_bindIO)

lemma emits_only_forEachIO:
  "(\<And>x. x \<in> set xs \<Longrightarrow> emits_only Q (f x)) \<Longrightarrow> emits_only Q (forEachIO f xs)"
  by (induction xs) (simp_all add: emits_only_ret emits_only_thenIO)

lemma emits_only_if:
  "(b \<Longrightarrow> emits_only Q m) \<Longrightarrow> (\<not> b \<Longrightarrow> emits_only Q k) \<Longrightarrow> emits_only Q (if b then m else k)"
  by simp

lemma emits_only_exec: "Q (Exec c) \<Longrightarrow> emits_only Q (exec w c)"
  by (simp add: emits_only_def exec_def)

lemma emits_only_execPython: "Q (ExecPython c a) \<Longrightarrow> emits_only Q (execPython w c a)"
  by (simp add: emits_only_def execPython_def)

lemma emits_only_getPythonOutput:
  "Q (GetPythonOutput c a) \<Longrightarrow> emits_only Q (getPythonOutput w c a)"
  by (simp add: emits_only_def getPythonOutput_def)

lemma emits_only_restoreCache: "Q (RestoreCache p k) \<Longrightarrow> emits_only Q (restoreCache w p k)"
  by (simp add: emits_only_def restoreCache_def)

lemma emits_only_saveCache: "Q (SaveCache p k) \<Longrightarrow> emits_only Q (saveCache w p k)"
  by (simp add: emits_only_def saveCache_def)

lemma emits_only_setOrAppendEnvVar:
  "(\<And>v. Q (ExportVariable name v)) \<Longrightarrow> emits_only Q (setOrAppendEnvVar w name val)"
  by (simp add: setOrAppendEnvVar_def Let_def emits_only_emit)

lemmas emits_only_intros =
  emits_only_ret emits_only_liftE emits_only_emit emits_only_bindIO emits_only_thenIO
  emits_only_exec emits_only_execPython emits_only_getPythonOutput
  emits_only_restoreCache emits_only_saveCache emits_only_setOrAppendEnvVar


lemma not_list_ex: "emits_only (\<lambda>ev. \<not> P ev) m \<Longrightarrow> \<not> list_ex P (fst m)"
  by (simp add: emits_only_def list_all_iff list_ex_iff)

lemma plain_not:
  "plain ev \<Longrightarrow> \<not> is_install_qt ev" "plain ev \<Longrightarrow> \<not> is_install_tool ev"
  "plain ev \<Longrightarrow> \<not> exports n ev" "plain ev \<Longrightarrow> \<not> sets_output n ev"
  by (cases ev; simp)+

section \<open>The calls each step of the run can make\<close>

lemma installDependencies_emits:
  assumes "\<And>ev. plain ev \<Longrightarrow> Q ev"
  shows "emits_only Q (installDependencies w c)"
  unfolding installDependencies_def Let_def
  by (intro emits_only_intros emits_only_if assms) simp_all

lemma restoreFromCache_emits:
  assumes "\<And>ev. plain ev \<Longrightarrow> Q ev"
  shows "emits_only Q (restoreFromCache w c)"
  unfolding restoreFromCache_def
  by (auto intro!: emits_only_intros assms split: option.splits)

lemma getLatestCompatibleVersion_emits:
  assumes "\<And>ev. plain ev \<Longrightarrow> Q ev"
  shows "emits_only Q (getLatestCompatibleVersion w v)"
  unfolding getLatestCompatibleVersion_def
  by (auto intro!: emits_only_intros assms split: sum.splits)

lemma installAqt_emits:
  assumes "\<And>ev. plain ev \<Longrightarrow> Q ev" and "\<And>args. Q (ExecPython ''pip install'' args)"
  shows "emits_only Q (installAqt w c)"
  unfolding installAqt_def
  by (auto intro!: emits_only_intros getLatestCompatibleVersion_emits assms)

lemma isAutodesktopSupported_emits:
  assumes "\<And>ev. plain ev \<Longrightarrow> Q ev"
  shows "emits_only Q (isAutodesktopSupported w)"
  unfolding isAutodesktopSupported_def
  by (auto intro!: emits_only_intros assms split: option.splits)

lemma wasmConfiguration_emits:
  assumes "\<And>ev. plain ev \<Longrightarrow> Q ev"
  shows "emits_only Q (wasmConfiguration c)"
  unfolding wasmConfiguration_def
  by (auto intro!: emits_only_intros assms)

lemma installQt_emits:
  assumes "\<And>ev. plain ev \<Longrightarrow> Q ev"
    and "\<And>args. isInstallQtBinaries c \<Longrightarrow> Q (ExecPython ''aqt install-qt'' args)"
  shows "emits_only Q (installQt w c ad)"
  unfolding installQt_def
  by (auto intro!: emits_only_intros wasmConfiguration_emits assms)

lemma installSrcDocExamples_emits:
  assumes "\<And>args. Q (ExecPython (''aqt install-'' @ flavor) args)"
  shows "emits_only Q (installSrcDocExamples w c flavor a m)"
  unfolding installSrcDocExamples_def
  by (intro emits_only_intros assms)

lemma installTools_emits:
  assumes "\<And>args. tools c \<noteq> [] \<Longrightarrow> Q (ExecPython ''aqt install-tool'' args)"
  shows "emits_only Q (installTools w c)"
  unfolding installTools_def
  by (rule emits_only_forEachIO) (auto intro!: emits_only_intros assms)

lemma install_emits:
  assumes "\<And>ev. plain ev \<Longrightarrow> Q ev"
    and "\<And>command args. command \<in> {''pip install'', ''aqt install-src'', ''aqt install-doc'',
            ''aqt install-example''} \<Longrightarrow> Q (ExecPython command args)"
    and "\<And>args. isInstallQtBinaries c \<Longrightarrow> Q (ExecPython ''aqt install-qt'' args)"
    and "\<And>args. tools c \<noteq> [] \<Longrightarrow> Q (ExecPython ''aqt install-tool'' args)"
  shows "emits_only Q (install w c)"
  unfolding install_def Let_def
  by (intro emits_only_intros emits_only_if installAqt_emits isAutodesktopSupported_emits
        installQt_emits installSrcDocExamples_emits installTools_emits assms)
     simp_all

lemma saveToCache_emits:
  assumes "\<And>ev. plain ev \<Longrightarrow> Q ev"
  shows "emits_only Q (saveToCache w c h)"
  unfolding saveToCache_def
  by (auto intro!: emits_only_intros assms)

lemma addTools_emits:
  assumes "\<And>ev. plain ev \<Longrightarrow> Q ev"
  shows "emits_only Q (addTools w c)"
  unfolding addTools_def
  by (auto intro!: emits_only_intros emits_only_forEachIO assms)

lemma exportTools_emits:
  assumes "\<And>v. tools c \<noteq> [] \<Longrightarrow> setEnv c \<Longrightarrow> Q (ExportVariable ''IQTA_TOOLS'' v)"
  shows "emits_only Q (exportTools w c)"
  unfolding exportTools_def
  by (auto intro!: emits_only_intros assms)

lemma publishEnv_emits:
  assumes "\<And>ev. plain ev \<Longrightarrow> Q ev"
    and "\<And>name v. name \<in> {''LD_LIBRARY_PATH'', ''PKG_CONFIG_PATH'', ''Qt5_DIR'', ''QT_ROOT_DIR'',
            ''QT_PLUGIN_PATH'', ''QML2_IMPORT_PATH''} \<Longrightarrow> Q (ExportVariable name v)"
  shows "emits_only Q (publishEnv w c q)"
  unfolding publishEnv_def
  by (intro emits_only_intros emits_only_if assms) simp_all

lemma publishQt_emits:
  assumes "\<And>ev. plain ev \<Longrightarrow> Q ev"
    and "\<And>v. isInstallQtBinaries c \<Longrightarrow> Q (SetOutput ''qtPath'' v)"
    and "\<And>name v. isInstallQtBinaries c \<Longrightarrow> setEnv c \<Longrightarrow>
           name \<in> {''LD_LIBRARY_PATH'', ''PKG_CONFIG_PATH'', ''Qt5_DIR'', ''QT_ROOT_DIR'',
            ''QT_PLUGIN_PATH'', ''QML2_IMPORT_PATH''} \<Longrightarrow> Q (ExportVariable name v)"
  shows "emits_only Q (publishQt w c)"
  unfolding publishQt_def
  by (intro emits_only_intros emits_only_if publishEnv_emits assms) simp_all

lemma snd_restoreFromCache:
  "snd (restoreFromCache w c) = Inr h \<Longrightarrow> h = cache_hit w c"
  by (auto simp: restoreFromCache_def cache_hit_def restoreCache_def io_simps
        split: if_splits sum.splits option.splits)

lemma run_with_emits:
  assumes "\<And>ev. plain ev \<Longrightarrow> Q ev"
    and "\<And>command args. \<not> cache_hit w c \<Longrightarrow>
           command \<in> {''pip install'', ''aqt install-src'', ''aqt install-doc'',
            ''aqt install-example''} \<Longrightarrow> Q (ExecPython command args)"
    and "\<And>args. \<not> cache_hit w c \<Longrightarrow> isInstallQtBinaries c \<Longrightarrow>
           Q (ExecPython ''aqt install-qt'' args)"
    and "\<And>args. \<not> cache_hit w c \<Longrightarrow> tools c \<noteq> [] \<Longrightarrow> Q (ExecPython ''aqt install-tool'' args)"
    and "\<And>v. tools c \<noteq> [] \<Longrightarrow> setEnv c \<Longrightarrow> Q (ExportVariable ''IQTA_TOOLS'' v)"
    and "\<And>v. isInstallQtBinaries c \<Longrightarrow> Q (SetOutput ''qtPath'' v)"
    and "\<And>name v. isInstallQtBinaries c \<Longrightarrow> setEnv c \<Longrightarrow>
           name \<in> {''LD_LIBRARY_PATH'', ''PKG_CONFIG_PATH'', ''Qt5_DIR'', ''QT_ROOT_DIR'',
            ''QT_PLUGIN_PATH'', ''QML2_IMPORT_PATH''} \<Longrightarrow> Q (ExportVariable name v)"
  shows "emits_only Q (run_with w c)"
  unfolding run_with_def
proof (intro emits_only_thenIO emits_only_bindIO)
  show "emits_only Q (installDependencies w c)" by (rule installDependencies_emits) fact
  show "emits_only Q (restoreFromCache w c)" by (rule restoreFromCache_emits) fact
  show "emits_only Q (addTools w c)" by (rule addTools_emits) fact
  show "emits_only Q (exportTools w c)" by (rule exportTools_emits) (rule assms(5))
  show "emits_only Q (publishQt w c)" by (rule publishQt_emits) (fact assms(1) assms(6) assms(7))+
next
  fix h assume "snd (restoreFromCache w c) = Inr h"
  then have h: "h = cache_hit w c" by (rule snd_restoreFromCache)
  show "emits_only Q (if \<not> h then install w c else ret ())"
  proof (cases h)
    case True
    then show ?thesis by (simp add: emits_only_ret)
  next
    case False
    with h have n: "\<not> cache_hit w c" by simp
    have "emits_only Q (install w c)"
      by (rule install_emits) (fact assms(1) assms(2)[OF n] assms(3)[OF n] assms(4)[OF n])+
    with False show ?thesis by simp
  qed
  show "emits_only Q (saveToCache w c h)" by (rule saveToCache_emits) fact
qed

lemma run_emits:
  assumes "\<And>c. Inputs_new w = Inr c \<Longrightarrow> emits_only Q (run_with w c)"
  shows "emits_only Q (run w)"
  unfolding run_def
  by (rule emits_only_bindIO) (simp_all add: emits_only_liftE snd_liftE assms)

lemma run_eq:
  assumes "Inputs_new w = Inr c"
  shows "fst (run w) = fst (run_with w c)" and "snd (run w) = snd (run_with w c)"
  using assms by (simp_all add: run_def io_simps)

lemma install_emits_gen:
  assumes "\<And>ev. plain ev \<Longrightarrow> Q ev"
    and "\<And>command args. command \<in> {''pip install'', ''aqt install-src'', ''aqt install-doc'',
            ''aqt install-example''} \<Longrightarrow> Q (ExecPython command args)"
    and "\<And>ad. ad = [] \<or> ad = [''--autodesktop''] \<Longrightarrow> emits_only Q (installQt w c ad)"
    and "\<And>args. tools c \<noteq> [] \<Longrightarrow> Q (ExecPython ''aqt install-tool'' args)"
  shows "emits_only Q (install w c)"
  unfolding install_def Let_def
  by (intro emits_only_intros emits_only_if installAqt_emits isAutodesktopSupported_emits
        installSrcDocExamples_emits installTools_emits assms)
     simp_all

lemma run_with_emits_gen:
  assumes "\<And>ev. plain ev \<Longrightarrow> Q ev"
    and "\<And>command args. \<not> cache_hit w c \<Longrightarrow>
           command \<in> {''pip install'', ''aqt install-src'', ''aqt install-doc'',
            ''aqt install-example''} \<Longrightarrow> Q (ExecPython command args)"
    and "\<And>ad. \<not> cache_hit w c \<Longrightarrow> ad = [] \<or> ad = [''--autodesktop''] \<Longrightarrow>
           emits_only Q (installQt w c ad)"
    and "\<And>args. \<not> cache_hit w c \<Longrightarrow> tools c \<noteq> [] \<Longrightarrow> Q (ExecPython ''aqt install-tool'' args)"
    and "\<And>v. tools c \<noteq> [] \<Longrightarrow> setEnv c \<Longrightarrow> Q (ExportVariable ''IQTA_TOOLS'' v)"
    and "emits_only Q (publishQt w c)"
  shows "emits_only Q (run_with w c)"
  unfolding run_with_def
proof (intro emits_only_thenIO emits_only_bindIO)
  show "emits_only Q (installDependencies w c)" by (rule installDependencies_emits) fact
  show "emits_only Q (restoreFromCache w c)" by (rule restoreFromCache_emits) fact
  show "emits_only Q (addTools w c)" by (rule addTools_emits) fact
  show "emits_only Q (exportTools w c)" by (rule exportTools_emits) (rule assms(5))
  show "emits_only Q (publishQt w c)" by fact
next
  fix h assume "snd (restoreFromCache w c) = Inr h"
  then have h: "h = cache_hit w c" by (rule snd_restoreFromCache)
  show "emits_only Q (if \<not> h then install w c else ret ())"
  proof (cases h)
    case True
    then show ?thesis by (simp add: emits_only_ret)
  next
    case False
    with h have n: "\<not> cache_hit w c" by simp
    have "emits_only Q (install w c)"
      by (rule install_emits_gen) (fact assms(1) assms(2)[OF n] assms(3)[OF n] assms(4)[OF n])+
    with False show ?thesis by simp
  qed
  show "emits_only Q (saveToCache w c h)" by (rule saveToCache_emits) fact
qed

lemma emits_only_self: "emits_only (\<lambda>ev. P ev \<longrightarrow> ev \<in> set (fst m)) m"
  by (simp add: emits_only_def list_all_iff)




section \<open>Runs that complete\<close>

lemma run_with_success:
  assumes "snd (run_with w c) = Inr u"
  shows "fst (run_with w c) =
           fst (installDependencies w c) @ fst (restoreFromCache w c)
           @ (if cache_hit w c then [] else fst (install w c))
           @ fst (saveToCache w c (cache_hit w c)) @ fst (addTools w c)
           @ fst (exportTools w c) @ fst (publishQt w c)"
    and "\<not> cache_hit w c \<Longrightarrow> snd (install w c) = Inr ()"
    and "snd (publishQt w c) = Inr ()"
proof -
  from assms obtain h where h: "snd (restoreFromCache w c) = Inr h"
    by (auto simp: run_with_def io_simps split: sum.splits)
  then have hh: "h = cache_hit w c" by (rule snd_restoreFromCache)
  from assms h hh show "fst (run_with w c) =
           fst (installDependencies w c) @ fst (restoreFromCache w c)
           @ (if cache_hit w c then [] else fst (install w c))
           @ fst (saveToCache w c (cache_hit w c)) @ fst (addTools w c)
           @ fst (exportTools w c) @ fst (publishQt w c)"
    by (auto simp: run_with_def io_simps split: sum.splits if_splits)
  from assms h hh show "\<not> cache_hit w c \<Longrightarrow> snd (install w c) = Inr ()"
    by (auto simp: run_with_def io_simps split: sum.splits if_splits)
  from assms h hh show "snd (publishQt w c) = Inr ()"
    by (auto simp: run_with_def io_simps split: sum.splits if_splits)
qed

lemma install_success:
  assumes "snd (install w c) = Inr u"
  shows "\<exists>ad. fst (install w c) =
            fst (installAqt w c) @ fst (isAutodesktopSupported w) @ fst (installQt w c ad)
            @ (if src c then fst (installSrcDocExamples w c ''src'' (srcArchives c) []) else [])
            @ (if doc c then fst (installSrcDocExamples w c ''doc'' (docArchives c) (docModules c))
               else [])
            @ (if example c
               then fst (installSrcDocExamples w c ''example'' (exampleArchives c)
                           (exampleModules c))
               else [])
            @ fst (installTools w c)
          \<and> snd (installQt w c ad) = Inr () \<and> snd (installTools w c) = Inr ()"
  using assms
  by (auto simp: install_def Let_def io_simps split: sum.splits if_splits)

lemma installQt_success:
  assumes "isInstallQtBinaries c" "snd (installQt w c ad) = Inr u"
  shows "list_ex is_install_qt (fst (installQt w c ad))"
  using assms by (auto simp: installQt_def io_simps split: sum.splits)

lemma install_success_qt:
  assumes "isInstallQtBinaries c" "snd (install w c) = Inr u"
  shows "list_ex is_install_qt (fst (install w c))"
proof -
  from install_success[OF assms(2)] obtain ad where
    f: "fst (install w c) =
            fst (installAqt w c) @ fst (isAutodesktopSupported w) @ fst (installQt w c ad)
            @ (if src c then fst (installSrcDocExamples w c ''src'' (srcArchives c) []) else [])
            @ (if doc c then fst (installSrcDocExamples w c ''doc'' (docArchives c) (docModules c))
               else [])
            @ (if example c
               then fst (installSrcDocExamples w c ''example'' (exampleArchives c)
                           (exampleModules c))
               else [])
            @ fst (installTools w c)"
    and s: "snd (installQt w c ad) = Inr ()" by blast
  from installQt_success[OF assms(1) s] show ?thesis
    unfolding f by (simp add: list_ex_append)
qed

lemma snd_publishEnv_success:
  assumes "snd (publishEnv w c q) = Inr u"
  shows "list_ex (exports ''QT_ROOT_DIR'') (fst (publishEnv w c q))"
  using assms
  by (auto simp: publishEnv_def io_simps snd_setOrAppendEnvVar list_ex_append
        split: sum.splits if_splits)

lemma publishQt_success:
  assumes "isInstallQtBinaries c" "snd (publishQt w c) = Inr u"
  shows "list_ex (sets_output ''qtPath'') (fst (publishQt w c))"
    and "setEnv c \<Longrightarrow> list_ex (exports ''QT_ROOT_DIR'') (fst (publishQt w c))"
proof -
  from assms obtain q where q: "locateQtArchDir w (dir c) = Inr q"
    by (auto simp: publishQt_def io_simps split: sum.splits)
  with assms(1) show "list_ex (sets_output ''qtPath'') (fst (publishQt w c))"
    by (simp add: publishQt_def io_simps)
  assume e: "setEnv c"
  with assms q have "snd (publishEnv w c q) = Inr u"
    by (simp add: publishQt_def io_simps)
  from snd_publishEnv_success[OF this] assms(1) e q
  show "list_ex (exports ''QT_ROOT_DIR'') (fst (publishQt w c))"
    by (simp add: publishQt_def io_simps)
qed







lemma filter_publishEnv_LD:
  "filter (exports ''LD_LIBRARY_PATH'') (fst (publishEnv w c q)) =
     (if platform w = ''linux'' then fst (setOrAppendEnvVar w ''LD_LIBRARY_PATH'' (path_resolve w [q, ''lib''])) else [])"
  by (simp add: publishEnv_def io_simps fst_setOrAppendEnvVar snd_setOrAppendEnvVar
        split: sum.splits)

lemma filter_publishEnv_PKG:
  "filter (exports ''PKG_CONFIG_PATH'') (fst (publishEnv w c q)) =
     (if platform w \<noteq> ''win32''
      then fst (setOrAppendEnvVar w ''PKG_CONFIG_PATH'' (path_resolve w [q, ''lib'', ''pkgconfig'']))
      else [])"
  by (simp add: publishEnv_def io_simps fst_setOrAppendEnvVar snd_setOrAppendEnvVar
        split: sum.splits)

lemma fst_publishQt:
  "isInstallQtBinaries c \<Longrightarrow> setEnv c \<Longrightarrow> locateQtArchDir w (dir c) = Inr q \<Longrightarrow>
     fst (publishQt w c) = SetOutput ''qtPath'' q # fst (publishEnv w c q)"
  by (simp add: publishQt_def io_simps)

lemma export_in_run:
  assumes "Inputs_new w = Inr c" and "ExportVariable n v \<in> set (fst (run w))"
    and "n \<noteq> ''IQTA_TOOLS''"
  shows "ExportVariable n v \<in> set (fst (publishQt w c))"
proof -
  let ?E = "ExportVariable n v"
  have "emits_only (\<lambda>ev. ev = ?E \<longrightarrow> ev \<in> set (fst (publishQt w c))) (run_with w c)"
  proof (rule run_with_emits_gen)
    fix ev assume "plain ev"
    then show "ev = ?E \<longrightarrow> ev \<in> set (fst (publishQt w c))" by (cases ev) simp_all
  next
    fix ad
    show "emits_only (\<lambda>ev. ev = ?E \<longrightarrow> ev \<in> set (fst (publishQt w c))) (installQt w c ad)"
      by (rule installQt_emits) (auto dest: plain_not)
  next
    show "emits_only (\<lambda>ev. ev = ?E \<longrightarrow> ev \<in> set (fst (publishQt w c))) (publishQt w c)"
      by (rule emits_only_self[of "\<lambda>ev. ev = ?E"])
  qed (use assms(3) in auto)
  then show ?thesis
    using assms(2) by (auto simp: run_eq[OF assms(1)] emits_only_def list_all_iff)
qed

lemma in_publishQt:
  assumes "ExportVariable n v \<in> set (fst (publishQt w c))"
  shows "isInstallQtBinaries c \<and> setEnv c
         \<and> (\<exists>q. locateQtArchDir w (dir c) = Inr q
                \<and> ExportVariable n v \<in> set (fst (publishEnv w c q)))"
  using assms
  by (cases "locateQtArchDir w (dir c)")
     (auto simp: publishQt_def io_simps split: if_splits)

lemma in_filter_exports:
  "ExportVariable n v \<in> set xs \<Longrightarrow> ExportVariable n v \<in> set (filter (exports n) xs)"
  by simp

lemma publishQt_in_run:
  assumes "Inputs_new w = Inr c" and "snd (run w) = Inr u"
  shows "set (fst (publishQt w c)) \<subseteq> set (fst (run w))"
proof -
  from assms have "snd (run_with w c) = Inr u" by (simp add: run_eq)
  from run_with_success(1)[OF this]
  have "set (fst (publishQt w c)) \<subseteq> set (fst (run_with w c))" by auto
  then show ?thesis by (simp add: run_eq[OF assms(1)])
qed

lemma install_qt_only_if:
  assumes "\<not> (isInstallQtBinaries c \<and> \<not> cache_hit w c)"
  shows "emits_only (\<lambda>ev. \<not> is_install_qt ev) (run_with w c)"
  by (rule run_with_emits) (use assms in \<open>auto dest: plain_not\<close>)

lemma qtPath_only_if:
  assumes "\<not> isInstallQtBinaries c"
  shows "emits_only (\<lambda>ev. \<not> sets_output ''qtPath'' ev) (run_with w c)"
  by (rule run_with_emits) (use assms in \<open>auto dest: plain_not\<close>)

lemma qt_root_only_if:
  assumes "\<not> (isInstallQtBinaries c \<and> setEnv c)"
  shows "emits_only (\<lambda>ev. \<not> exports ''QT_ROOT_DIR'' ev) (run_with w c)"
  by (rule run_with_emits) (use assms in \<open>auto dest: plain_not\<close>)

section \<open>Runs in which no external call fails\<close>

lemma snd_getLatestCompatibleVersion: "\<exists>v. snd (getLatestCompatibleVersion w x) = Inr v"
  by (simp add: getLatestCompatibleVersion_def io_simps split: sum.splits)

lemma snd_installAqt:
  assumes "\<And>commandLine. \<not> exec_fails w commandLine"
  shows "snd (installAqt w c) = Inr ()"
proof -
  obtain v where v: "snd (getLatestCompatibleVersion w (aqtVersion c)) = Inr v"
    using snd_getLatestCompatibleVersion by blast
  show ?thesis
    by (simp add: installAqt_def io_simps snd_execPython assms v)
qed

lemma snd_isAutodesktopSupported:
  assumes "exec_output w (pythonCommand w ''aqt'' [''version'']) = Inr out"
    and "match_aqt_version out = Some v" and "compareVersions v Op_ge ''3.0.0'' = Inr b"
  shows "snd (isAutodesktopSupported w) = Inr (b \<or> startsWith v ''3.2.'')"
  using assms by (simp add: isAutodesktopSupported_def getPythonOutput_def io_simps)

lemma snd_installQt_plain:
  assumes "\<And>commandLine. \<not> exec_fails w commandLine" "wasm c = WasmNone"
  shows "snd (installQt w c ad) = Inr ()"
  using assms by (simp add: installQt_def wasmConfiguration_def io_simps snd_execPython)

lemma snd_installSrcDocExamples:
  assumes "\<And>commandLine. \<not> exec_fails w commandLine"
  shows "snd (installSrcDocExamples w c flavor a m) = Inr ()"
  using assms by (simp add: installSrcDocExamples_def snd_execPython)

lemma snd_installTools:
  assumes "\<And>commandLine. \<not> exec_fails w commandLine"
  shows "snd (installTools w c) = Inr ()"
  unfolding installTools_def by (rule snd_forEachIO) (simp add: snd_execPython assms)

lemma snd_install:
  assumes nf: "\<And>commandLine. \<not> exec_fails w commandLine"
    and "exec_output w (pythonCommand w ''aqt'' [''version'']) = Inr out"
    and "match_aqt_version out = Some v" and "compareVersions v Op_ge ''3.0.0'' = Inr b"
    and "wasm c = WasmNone"
  shows "snd (install w c) = Inr ()"
  by (simp add: install_def Let_def io_simps snd_installAqt[OF nf]
        snd_isAutodesktopSupported[OF assms(2,3,4)] snd_installQt_plain[OF nf assms(5)]
        snd_installSrcDocExamples[OF nf] snd_installTools[OF nf])

lemma installDependencies_off:
  "installDeps c = Deps False \<Longrightarrow> installDependencies w c = ret ()"
  by (simp add: installDependencies_def)

lemma snd_restoreFromCache_ok:
  assumes "restore_cache w [dir c] (cacheKey w c) = Inr r"
  shows "snd (restoreFromCache w c) = Inr (cache_hit w c)"
  using assms
  by (simp add: restoreFromCache_def restoreCache_def cache_hit_def io_simps split: option.splits)

lemma snd_saveToCache_ok:
  assumes "internalCacheHit \<or> \<not> cache c \<or> save_cache w [dir c] (cacheKey w c) = Inr i"
  shows "snd (saveToCache w c internalCacheHit) = Inr ()"
  using assms by (auto simp: saveToCache_def saveCache_def io_simps)

lemma snd_addTools: "snd (addTools w c) = Inr ()"
  by (simp add: addTools_def snd_forEachIO io_simps)

lemma snd_exportTools: "snd (exportTools w c) = Inr ()"
  by (simp add: exportTools_def io_simps)

lemma snd_publishQt_ok:
  assumes "locateQtArchDir w (dir c) = Inr q" "compareVersions (version c) Op_lt ''6.0.0'' = Inr b"
  shows "snd (publishQt w c) = Inr ()"
  using assms by (simp add: publishQt_def publishEnv_def io_simps snd_setOrAppendEnvVar)

lemma snd_run_with:
  assumes "installDeps c = Deps False"
    and "restore_cache w [dir c] (cacheKey w c) = Inr r"
    and "cache_hit w c \<or> snd (install w c) = Inr ()"
    and "cache_hit w c \<or> \<not> cache c \<or> save_cache w [dir c] (cacheKey w c) = Inr i"
    and "snd (publishQt w c) = Inr ()"
  shows "snd (run_with w c) = Inr ()"
proof -
  have sv: "snd (saveToCache w c (cache_hit w c)) = Inr ()"
    using assms(4) by (rule snd_saveToCache_ok)
  have inst: "snd (if \<not> cache_hit w c then install w c else ret ()) = Inr ()"
    using assms(3) by (auto simp: io_simps)
  show ?thesis
    by (simp add: run_with_def io_simps installDependencies_off[OF assms(1)]
          snd_restoreFromCache_ok[OF assms(2)] sv inst snd_addTools snd_exportTools assms(5)
        del: if_not_P if_P split del: if_split)
qed

lemma cacheKey_nonempty: "cacheKey w c \<noteq> []"
proof -
  have m: "length k \<le> length (foldl add_keyString k arr)" for k arr
  proof (induction arr arbitrary: k)
    case Nil
    show ?case by simp
  next
    case (Cons a arr)
    have "length k \<le> length (add_keyString k a)" by (simp add: add_keyString_def)
    also have "\<dots> \<le> length (foldl add_keyString (add_keyString k a) arr)" by (rule Cons.IH)
    finally show ?case by simp
  qed
  have m2: "length k \<le> length (foldl (\<lambda>k arr. foldl add_keyString k arr) k arrs)" for k arrs
  proof (induction arrs arbitrary: k)
    case Nil
    show ?case by simp
  next
    case (Cons a arrs)
    have "length k \<le> length (foldl add_keyString k a)" by (rule m)
    also have "\<dots> \<le> length (foldl (\<lambda>k arr. foldl add_keyString k arr)
                                 (foldl add_keyString k a) arrs)"
      by (rule Cons.IH)
    finally show ?case by simp
  qed
  obtain rest others where k: "keyStringArrays w c = (host_str (host c) # others) # rest"
    by (simp add: keyStringArrays_def)
  have "0 < length (add_keyString (cacheKeyPrefix c) (host_str (host c)))"
    by (cases "host c") (simp_all add: add_keyString_def truthy_def)
  also have "\<dots> \<le> length (foldl add_keyString
                           (add_keyString (cacheKeyPrefix c) (host_str (host c))) others)"
    by (rule m)
  also have "\<dots> \<le> length (foldl (\<lambda>k arr. foldl add_keyString k arr)
                 (foldl add_keyString
                    (add_keyString (cacheKeyPrefix c) (host_str (host c))) others) rest)"
    by (rule m2)
  also have "\<dots> = length (assembledKey w c)"
    by (simp add: assembledKey_def k replace_commas_def)
  finally have "assembledKey w c \<noteq> []" by auto
  then show ?thesis by (simp add: cacheKey_def Let_def)
qed

lemma snd_run_example:
  assumes "Inputs_new (example_world raw) = Inr c"
    and "installDeps c = Deps False" and "wasm c = WasmNone" and "dir c = ''/w/Qt''"
    and "version c = ''6.8.0''"
  shows "snd (run (example_world raw)) = Inr ()"
proof -
  let ?w = "example_world raw"
  have nf: "\<And>commandLine. \<not> exec_fails ?w commandLine" by simp
  have i: "snd (install ?w c) = Inr ()"
    by (rule snd_install[OF nf _ match_example compare_example(1) assms(3)]) simp
  have p: "snd (publishQt ?w c) = Inr ()"
    by (rule snd_publishQt_ok[where q = "''/w/Qt/6.8.0/gcc_64''" and b = False])
       (simp_all add: assms(4,5) locate_example compare_example)
  have "snd (run_with ?w c) = Inr ()"
    by (rule snd_run_with[where r = None and i = "''42''"]) (simp_all add: assms(2) i p)
  then show ?thesis by (simp add: run_eq[OF assms(1)])
qed

lemma snd_run_hit:
  assumes "Inputs_new (cache_hit_world raw) = Inr c"
    and "installDeps c = Deps False" and "cache c" and "dir c = ''/w/Qt''"
    and "version c = ''6.8.0''"
  shows "cache_hit (cache_hit_world raw) c" and "snd (run (cache_hit_world raw)) = Inr ()"
proof -
  let ?w = "cache_hit_world raw"
  show h: "cache_hit ?w c"
    by (simp add: cache_hit_def assms(3) truthy_def cacheKey_nonempty)
  have p: "snd (publishQt ?w c) = Inr ()"
    by (rule snd_publishQt_ok[where q = "''/w/Qt/6.8.0/gcc_64''" and b = False])
       (simp_all add: assms(4,5) locate_hit compare_example)
  have "snd (run_with ?w c) = Inr ()"
    by (rule snd_run_with[where r = "Some (cacheKey ?w c)" and i = "[]"])
       (simp_all add: assms(2) h p)
  then show "snd (run ?w) = Inr ()" by (simp add: run_eq[OF assms(1)])
qed



section \<open>Claims about the cache key\<close>

text \<open>
  C1, as amended. The key is at most 512 characters long whenever the prefix is at most
  447 characters long. Whenever the assembled key is longer than 512 characters, the key
  is the prefix, a hyphen and the SHA-256 digest of the assembled key, 64 lowercase
  hexadecimal digits; otherwise it is the assembled key.
\<close>

theorem cacheKey_bounded:
  "(length (cacheKeyPrefix c) \<le> 447 \<longrightarrow> length (cacheKey w c) \<le> 512)
   \<and> (512 < length (assembledKey w c) \<longrightarrow>
        cacheKey w c = cacheKeyPrefix c @ ''-'' @ sha256_hex (assembledKey w c)
        \<and> length (sha256_hex (assembledKey w c)) = 64
        \<and> lower_hex (sha256_hex (assembledKey w c)))
   \<and> (length (assembledKey w c) \<le> 512 \<longrightarrow> cacheKey w c = assembledKey w c)"
  by (simp add: cacheKey_def maxKeyLength_def Let_def length_sha256_hex lower_hex_sha256_hex)

text \<open>
  An architecture of 500 characters: the assembled key is too long and is hashed.
\<close>

theorem cacheKey_bounded_witness:
  "length (cacheKeyPrefix (example_config\<lparr>arch := replicate 500 CHR ''x''\<rparr>)) \<le> 447
   \<and> 512 < length (assembledKey (example_world example_raw)
                    (example_config\<lparr>arch := replicate 500 CHR ''x''\<rparr>))
   \<and> length (cacheKey (example_world example_raw)
               (example_config\<lparr>arch := replicate 500 CHR ''x''\<rparr>)) \<le> 512
   \<and> cacheKey (example_world example_raw) (example_config\<lparr>arch := replicate 500 CHR ''x''\<rparr>)
       = ''install-qt-action-''
         @ sha256_hex (assembledKey (example_world example_raw)
                         (example_config\<lparr>arch := replicate 500 CHR ''x''\<rparr>))"
proof -
  let ?c = "example_config\<lparr>arch := replicate 500 CHR ''x''\<rparr>"
  let ?w = "example_world example_raw"
  have p: "length (cacheKeyPrefix ?c) \<le> 447" by (simp add: example_config_def)
  have l: "512 < length (assembledKey ?w ?c)"
    by (simp add: assembledKey_def keyStringArrays_def example_config_def add_keyString_def
        truthy_def replace_commas_def chars_of_def)
  from cacheKey_bounded[of ?c ?w] p l show ?thesis by (simp add: example_config_def)
qed

text \<open>
  C1 as stated fails: with a prefix of 480 characters the constructor resolves a
  configuration whose key has 480 + 1 + 64 = 545 characters.
\<close>

theorem cacheKey_unbounded_counterexample:
  "Inputs_new (example_world ((''cache-key-prefix'', replicate 480 CHR ''a'') # example_raw))
     = Inr (example_config\<lparr>cacheKeyPrefix := replicate 480 CHR ''a''\<rparr>)
   \<and> length (cacheKey (example_world ((''cache-key-prefix'', replicate 480 CHR ''a'') # example_raw))
                (example_config\<lparr>cacheKeyPrefix := replicate 480 CHR ''a''\<rparr>)) = 545
   \<and> \<not> length (cacheKey (example_world ((''cache-key-prefix'', replicate 480 CHR ''a'') # example_raw))
                  (example_config\<lparr>cacheKeyPrefix := replicate 480 CHR ''a''\<rparr>)) \<le> 512"
proof -
  have "Inputs_new (example_world ((''cache-key-prefix'', replicate 480 CHR ''a'') # example_raw))
     = Inr (example_config\<lparr>cacheKeyPrefix := replicate 480 CHR ''a''\<rparr>)"
    by (simp add: ctor_defs example_raw_def example_config_def)
  moreover have "length (cacheKey (example_world ((''cache-key-prefix'', replicate 480 CHR ''a'') # example_raw))
                (example_config\<lparr>cacheKeyPrefix := replicate 480 CHR ''a''\<rparr>)) = 545"
    by (simp add: cacheKey_def Let_def maxKeyLength_def length_assembledKey_example
          length_sha256_hex)
  ultimately show ?thesis by simp
qed

text \<open>
  C2. The key is a function of the configuration and of the OS release string alone: two
  evaluations on configurations equal field for field, in environments that agree on the
  OS release string (and may differ in everything else), return the same string.
\<close>

theorem cacheKey_deterministic:
  assumes "host c1 = host c2" "target c1 = target c2" "version c1 = version c2"
    "wasm c1 = wasm c2" "arch c1 = arch c2" "dir c1 = dir c2" "modules c1 = modules c2"
    "archives c1 = archives c2" "tools c1 = tools c2" "addToolsToPath c1 = addToolsToPath c2"
    "extra c1 = extra c2" "src c1 = src c2" "srcArchives c1 = srcArchives c2" "doc c1 = doc c2"
    "docArchives c1 = docArchives c2" "docModules c1 = docModules c2" "example c1 = example c2"
    "exampleArchives c1 = exampleArchives c2" "exampleModules c1 = exampleModules c2"
    "installDeps c1 = installDeps c2" "cache c1 = cache c2"
    "cacheKeyPrefix c1 = cacheKeyPrefix c2" "isInstallQtBinaries c1 = isInstallQtBinaries c2"
    "setEnv c1 = setEnv c2" "aqtSource c1 = aqtSource c2" "aqtVersion c1 = aqtVersion c2"
    "py7zrVersion c1 = py7zrVersion c2"
    and "os_release w1 = os_release w2"
  shows "cacheKey w1 c1 = cacheKey w2 c2"
proof -
  from assms(1-27) have "c1 = c2" by (intro Inputs.equality) simp_all
  with assms(28) show ?thesis
    by (simp add: cacheKey_def assembledKey_def keyStringArrays_def)
qed

text \<open>
  The same configuration on two runners with the same OS release string, one of them
  with another platform and no environment variable.
\<close>

theorem cacheKey_deterministic_witness:
  "cacheKey (example_world example_raw) example_config
   = cacheKey ((example_world [])\<lparr>platform := ''win32'', env := Map.empty\<rparr>) example_config"
  by (rule cacheKey_deterministic) simp_all

section \<open>Claims about the constructor\<close>



text \<open>
  C5, as amended. The constructor returns either an error or a whole configuration. It
  fails whenever \<open>host\<close>, \<open>target\<close>, \<open>wasm\<close> or \<open>dir\<close> is malformed. It does not validate
  \<open>version\<close>: when the other inputs are well-formed and either the raw \<open>arch\<close> is
  not empty or the target is not android and the host is not windows, it succeeds for
  every version string and stores it as given. With an empty raw \<open>arch\<close> and the target
  android or the host windows, the version is compared and an empty version makes the
  constructor fail.
\<close>

theorem version_not_validated:
  "(getInput w ''host'' \<in> {[], ''windows'', ''mac'', ''linux''}
    \<and> getInput w ''target'' \<in> {''desktop'', ''android'', ''ios''}
    \<and> getInput w ''wasm'' \<in> {''none'', ''singlethread'', ''multithread''}
    \<and> (getInput w ''dir'' \<noteq> [] \<or> (\<exists>d. env w ''RUNNER_WORKSPACE'' = Some d \<and> d \<noteq> []))
    \<and> (getInput w ''arch'' \<noteq> []
        \<or> (getInput w ''target'' \<noteq> ''android''
            \<and> \<not> (getInput w ''host'' = ''windows''
                   \<or> (getInput w ''host'' = [] \<and> platform w = ''win32''))))
    \<longrightarrow> (\<exists>c. Inputs_new w = Inr c \<and> version c = getInput w ''version''
              \<and> arch c = getInput w ''arch''))
   \<and> (getInput w ''version'' = [] \<and> getInput w ''arch'' = []
      \<and> (getInput w ''target'' = ''android''
          \<or> getInput w ''host'' = ''windows''
          \<or> (getInput w ''host'' = [] \<and> platform w = ''win32''))
      \<longrightarrow> (\<exists>e. Inputs_new w = Inl e))
   \<and> (getInput w ''host'' \<notin> {[], ''windows'', ''mac'', ''linux''}
      \<or> getInput w ''target'' \<notin> {''desktop'', ''android'', ''ios''}
      \<or> getInput w ''wasm'' \<notin> {''none'', ''singlethread'', ''multithread''}
      \<or> \<not> (getInput w ''dir'' \<noteq> [] \<or> (\<exists>d. env w ''RUNNER_WORKSPACE'' = Some d \<and> d \<noteq> []))
      \<longrightarrow> (\<exists>e. Inputs_new w = Inl e))"
proof (intro conjI impI)
  assume a: "getInput w ''host'' \<in> {[], ''windows'', ''mac'', ''linux''}
    \<and> getInput w ''target'' \<in> {''desktop'', ''android'', ''ios''}
    \<and> getInput w ''wasm'' \<in> {''none'', ''singlethread'', ''multithread''}
    \<and> (getInput w ''dir'' \<noteq> [] \<or> (\<exists>d. env w ''RUNNER_WORKSPACE'' = Some d \<and> d \<noteq> []))
    \<and> (getInput w ''arch'' \<noteq> []
        \<or> (getInput w ''target'' \<noteq> ''android''
            \<and> \<not> (getInput w ''host'' = ''windows''
                   \<or> (getInput w ''host'' = [] \<and> platform w = ''win32''))))"
  then obtain h t m d where r: "ctor_host w = Inr h" "ctor_target w = Inr t"
      "ctor_wasm w = Inr m" "ctor_dir w = Inr d"
    using ctor_host_cases(1) ctor_target_cases(1) ctor_wasm_cases(1) ctor_dir_cases(1) by blast
  from a have "getInput w ''arch'' \<noteq> [] \<or> (t \<noteq> Android \<and> h \<noteq> Windows)"
    using ctor_target_android[OF r(2)] ctor_host_windows[OF r(1)] by blast
  then have "ctor_arch w h t (getInput w ''version'') = Inr (getInput w ''arch'')"
    by (rule ctor_arch_no_comparison)
  with r show "\<exists>c. Inputs_new w = Inr c \<and> version c = getInput w ''version''
              \<and> arch c = getInput w ''arch''"
    by (simp add: Inputs_new_def bindE_def Let_def)
next
  assume a: "getInput w ''version'' = [] \<and> getInput w ''arch'' = []
      \<and> (getInput w ''target'' = ''android''
          \<or> getInput w ''host'' = ''windows''
          \<or> (getInput w ''host'' = [] \<and> platform w = ''win32''))"
  show "\<exists>e. Inputs_new w = Inl e"
  proof (rule ccontr)
    assume "\<not> (\<exists>e. Inputs_new w = Inl e)"
    then obtain c where c: "Inputs_new w = Inr c" by (cases "Inputs_new w") auto
    note f = Inputs_new_Inr[OF c]
    from a have "target c = Android \<or> host c = Windows"
      using ctor_target_android[OF f(2)] ctor_host_windows[OF f(1)] by blast
    with a ctor_arch_empty_version[of w "target c" "host c"] f(5) show False by auto
  qed
next
  assume a: "getInput w ''host'' \<notin> {[], ''windows'', ''mac'', ''linux''}
      \<or> getInput w ''target'' \<notin> {''desktop'', ''android'', ''ios''}
      \<or> getInput w ''wasm'' \<notin> {''none'', ''singlethread'', ''multithread''}
      \<or> \<not> (getInput w ''dir'' \<noteq> [] \<or> (\<exists>d. env w ''RUNNER_WORKSPACE'' = Some d \<and> d \<noteq> []))"
  show "\<exists>e. Inputs_new w = Inl e"
  proof (rule ccontr)
    assume "\<not> (\<exists>e. Inputs_new w = Inl e)"
    then obtain c where c: "Inputs_new w = Inr c" by (cases "Inputs_new w") auto
    note f = Inputs_new_Inr[OF c]
    from a f(1) f(2) f(3) f(6) show False
      using ctor_host_cases(2)[of w] ctor_target_cases(2)[of w] ctor_wasm_cases(2)[of w]
        ctor_dir_cases(2)[of w]
      by auto
  qed
qed

text \<open>
  The version \<open>"latest"\<close> with an architecture is accepted; an empty version on windows
  without an architecture, and an unknown target, are refused.
\<close>

theorem version_not_validated_witness:
  "(\<exists>c. Inputs_new (example_world ((''version'', ''latest'') # (''arch'', ''gcc_64'') # example_raw))
          = Inr c \<and> version c = ''latest'' \<and> arch c = ''gcc_64'')
   \<and> (\<exists>e. Inputs_new (example_world ((''version'', []) # (''host'', ''windows'') # example_raw)) = Inl e)
   \<and> (\<exists>e. Inputs_new (example_world ((''target'', ''embedded'') # example_raw)) = Inl e)"
proof -
  let ?w1 = "example_world ((''version'', ''latest'') # (''arch'', ''gcc_64'') # example_raw)"
  let ?w2 = "example_world ((''version'', []) # (''host'', ''windows'') # example_raw)"
  let ?w3 = "example_world ((''target'', ''embedded'') # example_raw)"
  have 1: "\<exists>c. Inputs_new ?w1 = Inr c \<and> version c = ''latest'' \<and> arch c = ''gcc_64''"
    using version_not_validated[of ?w1] by (simp add: example_raw_def)
  have 2: "\<exists>e. Inputs_new ?w2 = Inl e"
    using version_not_validated[of ?w2] by (simp add: example_raw_def)
  have 3: "\<exists>e. Inputs_new ?w3 = Inl e"
    using version_not_validated[of ?w3] by (simp add: example_raw_def)
  from 1 2 3 show ?thesis by simp
qed

text \<open>
  C5 as stated fails: on a Linux runner with the target desktop the constructor accepts
  the empty version, and a version that is not a semantic version.
\<close>

theorem version_required_counterexample:
  "getInput (example_world ((''version'', []) # example_raw)) ''version'' = []
   \<and> Inputs_new (example_world ((''version'', []) # example_raw))
       = Inr (example_config\<lparr>version := []\<rparr>)
   \<and> validateAndParse ''not-a-version'' = None
   \<and> Inputs_new (example_world ((''version'', ''not-a-version'') # example_raw))
       = Inr (example_config\<lparr>version := ''not-a-version''\<rparr>)"
  by (simp add: ctor_defs example_raw_def example_config_def validateAndParse_def is_digit_def)

text \<open>
  C6. A raw \<open>target\<close> outside desktop, android and ios, or a raw \<open>wasm\<close> outside none,
  singlethread and multithread (the empty string among them), makes the constructor fail
  with a \<open>TypeError\<close> whose message starts with the name of an offending field: the
  first one in the order host, target, wasm. An empty raw \<open>host\<close> is no error: the host
  is windows, mac or linux after the platform (win32, darwin, anything else), every
  configuration returned has that host, and no error thrown is about the host.
\<close>

theorem enum_validation:
  "(getInput w ''host'' \<in> {[], ''windows'', ''mac'', ''linux''}
    \<and> getInput w ''target'' \<notin> {''desktop'', ''android'', ''ios''}
    \<longrightarrow> Inputs_new w
          = Inl (TypeError (''target: '' @ dq @ getInput w ''target'' @ dq
                  @ '' is not one of '' @ dq @ ''desktop'' @ dq @ '' | '' @ dq @ ''android'' @ dq
                  @ '' | '' @ dq @ ''ios'' @ dq)))
   \<and> (getInput w ''host'' \<in> {[], ''windows'', ''mac'', ''linux''}
      \<and> getInput w ''target'' \<in> {''desktop'', ''android'', ''ios''}
      \<and> getInput w ''wasm'' \<notin> {''none'', ''singlethread'', ''multithread''}
      \<longrightarrow> Inputs_new w
            = Inl (TypeError (''wasm: '' @ dq @ getInput w ''wasm'' @ dq
                    @ '' is not one of '' @ dq @ ''none'' @ dq @ '' | '' @ dq @ ''singlethread''
                    @ dq @ '' | '' @ dq @ ''multithread'' @ dq)))
   \<and> (getInput w ''target'' \<notin> {''desktop'', ''android'', ''ios''}
      \<or> getInput w ''wasm'' \<notin> {''none'', ''singlethread'', ''multithread''}
      \<longrightarrow> (\<exists>msg. Inputs_new w = Inl (TypeError msg)
                 \<and> (startsWith msg ''host: '' \<or> startsWith msg ''target: ''
                      \<or> startsWith msg ''wasm: '')))
   \<and> (getInput w ''host'' = []
      \<longrightarrow> ctor_host w = Inr (if platform w = ''win32'' then Windows
                              else if platform w = ''darwin'' then Mac else Linux)
          \<and> (\<forall>c. Inputs_new w = Inr c
                 \<longrightarrow> host c = (if platform w = ''win32'' then Windows
                                else if platform w = ''darwin'' then Mac else Linux))
          \<and> (\<forall>msg. Inputs_new w = Inl (TypeError msg) \<longrightarrow> \<not> startsWith msg ''host: ''))"
proof (intro conjI impI allI)
  assume a: "getInput w ''host'' \<in> {[], ''windows'', ''mac'', ''linux''}
    \<and> getInput w ''target'' \<notin> {''desktop'', ''android'', ''ios''}"
  then obtain h where h: "ctor_host w = Inr h" using ctor_host_cases(1) by blast
  from a have "getInput w ''target'' \<notin> {''desktop'', ''android'', ''ios''}" ..
  from Inputs_new_Inl(2)[OF h ctor_target_cases(2)[OF this]]
  show "Inputs_new w
          = Inl (TypeError (''target: '' @ dq @ getInput w ''target'' @ dq
                  @ '' is not one of '' @ dq @ ''desktop'' @ dq @ '' | '' @ dq @ ''android'' @ dq
                  @ '' | '' @ dq @ ''ios'' @ dq))" .
next
  assume a: "getInput w ''host'' \<in> {[], ''windows'', ''mac'', ''linux''}
      \<and> getInput w ''target'' \<in> {''desktop'', ''android'', ''ios''}
      \<and> getInput w ''wasm'' \<notin> {''none'', ''singlethread'', ''multithread''}"
  then obtain h t where h: "ctor_host w = Inr h" and t: "ctor_target w = Inr t"
    using ctor_host_cases(1) ctor_target_cases(1) by blast
  from a have "getInput w ''wasm'' \<notin> {''none'', ''singlethread'', ''multithread''}" by simp
  from Inputs_new_Inl(3)[OF h t ctor_wasm_cases(2)[OF this]]
  show "Inputs_new w
            = Inl (TypeError (''wasm: '' @ dq @ getInput w ''wasm'' @ dq
                    @ '' is not one of '' @ dq @ ''none'' @ dq @ '' | '' @ dq @ ''singlethread''
                    @ dq @ '' | '' @ dq @ ''multithread'' @ dq))" .
next
  assume a: "getInput w ''target'' \<notin> {''desktop'', ''android'', ''ios''}
      \<or> getInput w ''wasm'' \<notin> {''none'', ''singlethread'', ''multithread''}"
  show "\<exists>msg. Inputs_new w = Inl (TypeError msg)
                 \<and> (startsWith msg ''host: '' \<or> startsWith msg ''target: ''
                      \<or> startsWith msg ''wasm: '')"
  proof (cases "getInput w ''host'' \<in> {[], ''windows'', ''mac'', ''linux''}")
    case False
    from ctor_host_cases(2)[OF False] Inputs_new_Inl(1) show ?thesis by fastforce
  next
    case True
    then obtain h where h: "ctor_host w = Inr h" using ctor_host_cases(1) by blast
    show ?thesis
    proof (cases "getInput w ''target'' \<in> {''desktop'', ''android'', ''ios''}")
      case False
      from Inputs_new_Inl(2)[OF h ctor_target_cases(2)[OF False]] show ?thesis by simp
    next
      case True
      then obtain t where t: "ctor_target w = Inr t" using ctor_target_cases(1) by blast
      from True a have "getInput w ''wasm'' \<notin> {''none'', ''singlethread'', ''multithread''}"
        by blast
      from Inputs_new_Inl(3)[OF h t ctor_wasm_cases(2)[OF this]] show ?thesis by simp
    qed
  qed
next
  assume "getInput w ''host'' = []"
  then show "ctor_host w = Inr (if platform w = ''win32'' then Windows
                              else if platform w = ''darwin'' then Mac else Linux)"
    by (rule ctor_host_empty)
next
  fix c
  assume e: "getInput w ''host'' = []" and c: "Inputs_new w = Inr c"
  from ctor_host_empty[OF e] Inputs_new_Inr(1)[OF c]
  show "host c = (if platform w = ''win32'' then Windows
                                else if platform w = ''darwin'' then Mac else Linux)"
    by simp
next
  fix msg
  assume e: "getInput w ''host'' = []" and f: "Inputs_new w = Inl (TypeError msg)"
  show "\<not> startsWith msg ''host: ''"
  proof
    assume s: "startsWith msg ''host: ''"
    from Inputs_new_Inl_cases[OF f] ctor_host_empty[OF e] s show False
      by (auto dest: ctor_target_error ctor_wasm_error ctor_dir_error ctor_arch_error)
  qed
qed

text \<open>
  An unknown target and an empty wasm are refused with their messages; with no host
  input the Linux runner resolves the host linux.
\<close>

theorem enum_validation_witness:
  "Inputs_new (example_world ((''target'', ''embedded'') # example_raw))
     = Inl (TypeError (''target: '' @ dq @ ''embedded'' @ dq @ '' is not one of '' @ dq
              @ ''desktop'' @ dq @ '' | '' @ dq @ ''android'' @ dq @ '' | '' @ dq @ ''ios'' @ dq))
   \<and> Inputs_new (example_world ((''wasm'', []) # example_raw))
     = Inl (TypeError (''wasm: '' @ dq @ dq @ '' is not one of '' @ dq
              @ ''none'' @ dq @ '' | '' @ dq @ ''singlethread'' @ dq @ '' | '' @ dq
              @ ''multithread'' @ dq))
   \<and> getInput (example_world example_raw) ''host'' = []
   \<and> Inputs_new (example_world example_raw) = Inr example_config
   \<and> host example_config = Linux"
proof -
  let ?w1 = "example_world ((''target'', ''embedded'') # example_raw)"
  let ?w2 = "example_world ((''wasm'', []) # example_raw)"
  let ?w3 = "example_world example_raw"
  have 3: "Inputs_new ?w3 = Inr example_config"
    by (simp add: ctor_defs example_raw_def example_config_def)
  have h: "getInput ?w3 ''host'' = []" by (simp add: example_raw_def)
  from enum_validation[of ?w1] enum_validation[of ?w2] enum_validation[of ?w3] 3 h
  show ?thesis by (simp add: example_raw_def)
qed

section \<open>Claims about the installer invocations\<close>



text \<open>
  C7. When the raw \<open>tools\<close> input is empty, the tools sequence of the configuration is
  empty and no run, whether it completes or fails, calls \<open>install-tool\<close> or exports
  \<open>IQTA_TOOLS\<close>, whatever \<open>setEnv\<close> is.
\<close>

theorem no_tools_when_empty:
  assumes "getInput w ''tools'' = []"
  shows "(\<forall>c. Inputs_new w = Inr c \<longrightarrow> tools c = [])
         \<and> emits_only (\<lambda>ev. \<not> is_install_tool ev \<and> \<not> exports ''IQTA_TOOLS'' ev) (run w)"
proof
  show "\<forall>c. Inputs_new w = Inr c \<longrightarrow> tools c = []"
    using assms by (auto intro: tools_empty)
  show "emits_only (\<lambda>ev. \<not> is_install_tool ev \<and> \<not> exports ''IQTA_TOOLS'' ev) (run w)"
  proof (rule run_emits)
    fix c assume "Inputs_new w = Inr c"
    then have t: "tools c = []" using assms by (rule tools_empty)
    show "emits_only (\<lambda>ev. \<not> is_install_tool ev \<and> \<not> exports ''IQTA_TOOLS'' ev) (run_with w c)"
    proof (rule run_with_emits)
      fix ev assume "plain ev"
      then show "\<not> is_install_tool ev \<and> \<not> exports ''IQTA_TOOLS'' ev" by (cases ev) simp_all
    qed (simp_all add: t, auto)
  qed
qed

text \<open>
  The example run has \<open>set-env\<close> true and no tools; it completes.
\<close>

theorem no_tools_when_empty_witness:
  "getInput (example_world example_raw) ''tools'' = []
   \<and> Inputs_new (example_world example_raw) = Inr example_config
   \<and> setEnv example_config
   \<and> tools example_config = []
   \<and> snd (run (example_world example_raw)) = Inr ()
   \<and> emits_only (\<lambda>ev. \<not> is_install_tool ev \<and> \<not> exports ''IQTA_TOOLS'' ev)
        (run (example_world example_raw))"
proof -
  have t: "getInput (example_world example_raw) ''tools'' = []" by (simp add: example_raw_def)
  have s: "snd (run (example_world example_raw)) = Inr ()"
    by (rule snd_run_example[OF Inputs_new_example]) (simp_all add: example_config_def)
  from no_tools_when_empty[OF t] t s Inputs_new_example show ?thesis
    by (simp add: example_config_def)
qed

text \<open>
  C9, as amended. The flag \<open>isInstallQtBinaries\<close> is true exactly when neither
  \<open>tools-only\<close> nor \<open>no-qt-binaries\<close> is \<open>"true"\<close> up to case. In every run,
  \<open>install-qt\<close> is called only if the flag is true and the cache was not hit, the output
  \<open>qtPath\<close> is set only if the flag is true, and \<open>QT_ROOT_DIR\<close> is exported only if the
  flag and \<open>setEnv\<close> are true. In a run that completes, each of the three happens
  exactly under its condition.
\<close>

theorem install_qt_binaries_flag:
  assumes "Inputs_new w = Inr c"
  shows "isInstallQtBinaries c =
           (\<not> true_ignoring_case (getInput w ''tools-only'')
            \<and> \<not> true_ignoring_case (getInput w ''no-qt-binaries''))
       \<and> (list_ex is_install_qt (fst (run w)) \<longrightarrow> isInstallQtBinaries c \<and> \<not> cache_hit w c)
       \<and> (list_ex (sets_output ''qtPath'') (fst (run w)) \<longrightarrow> isInstallQtBinaries c)
       \<and> (list_ex (exports ''QT_ROOT_DIR'') (fst (run w)) \<longrightarrow> isInstallQtBinaries c \<and> setEnv c)
       \<and> (snd (run w) = Inr () \<longrightarrow>
            list_ex is_install_qt (fst (run w)) = (isInstallQtBinaries c \<and> \<not> cache_hit w c)
            \<and> list_ex (sets_output ''qtPath'') (fst (run w)) = isInstallQtBinaries c
            \<and> list_ex (exports ''QT_ROOT_DIR'') (fst (run w))
                = (isInstallQtBinaries c \<and> setEnv c))"
proof -
  note r = run_eq[OF assms]
  have flag: "isInstallQtBinaries c =
           (\<not> true_ignoring_case (getInput w ''tools-only'')
            \<and> \<not> true_ignoring_case (getInput w ''no-qt-binaries''))"
    using Inputs_new_Inr(8)[OF assms] by (simp add: getBoolInput_iff)
  have o1: "list_ex is_install_qt (fst (run w)) \<longrightarrow> isInstallQtBinaries c \<and> \<not> cache_hit w c"
    unfolding r using not_list_ex[OF install_qt_only_if, of c w] by blast
  have o2: "list_ex (sets_output ''qtPath'') (fst (run w)) \<longrightarrow> isInstallQtBinaries c"
    unfolding r using not_list_ex[OF qtPath_only_if, of c w] by blast
  have o3: "list_ex (exports ''QT_ROOT_DIR'') (fst (run w)) \<longrightarrow> isInstallQtBinaries c \<and> setEnv c"
    unfolding r using not_list_ex[OF qt_root_only_if, of c w] by blast
  have p: "list_ex is_install_qt (fst (run w))" if s: "snd (run w) = Inr ()"
    and f: "isInstallQtBinaries c" and h: "\<not> cache_hit w c"
  proof -
    from s have s': "snd (run_with w c) = Inr ()" by (simp add: r)
    from install_success_qt[OF f run_with_success(2)[OF s' h]] h
    show ?thesis unfolding r run_with_success(1)[OF s'] by (simp add: list_ex_append)
  qed
  have p2: "list_ex (sets_output ''qtPath'') (fst (run w))
            \<and> (setEnv c \<longrightarrow> list_ex (exports ''QT_ROOT_DIR'') (fst (run w)))"
    if s: "snd (run w) = Inr ()" and f: "isInstallQtBinaries c"
  proof -
    from s have s': "snd (run_with w c) = Inr ()" by (simp add: r)
    from publishQt_success[OF f run_with_success(3)[OF s']]
    show ?thesis unfolding r run_with_success(1)[OF s'] by (simp add: list_ex_append)
  qed
  from flag o1 o2 o3 p p2 show ?thesis by blast
qed

text \<open>
  The example run completes without a cache hit: all three happen.
\<close>

theorem install_qt_binaries_flag_witness:
  "Inputs_new (example_world example_raw) = Inr example_config
   \<and> snd (run (example_world example_raw)) = Inr ()
   \<and> isInstallQtBinaries example_config
   \<and> \<not> cache_hit (example_world example_raw) example_config
   \<and> list_ex is_install_qt (fst (run (example_world example_raw)))
   \<and> list_ex (sets_output ''qtPath'') (fst (run (example_world example_raw)))
   \<and> list_ex (exports ''QT_ROOT_DIR'') (fst (run (example_world example_raw)))"
proof -
  have s: "snd (run (example_world example_raw)) = Inr ()"
    by (rule snd_run_example[OF Inputs_new_example]) (simp_all add: example_config_def)
  have h: "\<not> cache_hit (example_world example_raw) example_config"
    by (simp add: cache_hit_def example_config_def)
  have f: "isInstallQtBinaries example_config" "setEnv example_config"
    by (simp_all add: example_config_def)
  from install_qt_binaries_flag[OF Inputs_new_example] s h f Inputs_new_example
  show ?thesis by simp
qed

text \<open>
  C9 as stated fails: with the cache enabled and an entry found, the flag is true, the
  run completes and \<open>install-qt\<close> is never called.
\<close>

theorem install_qt_on_cache_hit_counterexample:
  "Inputs_new (cache_hit_world ((''cache'', ''true'') # example_raw))
     = Inr (example_config\<lparr>cache := True\<rparr>)
   \<and> isInstallQtBinaries (example_config\<lparr>cache := True\<rparr>)
   \<and> snd (run (cache_hit_world ((''cache'', ''true'') # example_raw))) = Inr ()
   \<and> \<not> list_ex is_install_qt (fst (run (cache_hit_world ((''cache'', ''true'') # example_raw))))"
proof -
  let ?w = "cache_hit_world ((''cache'', ''true'') # example_raw)"
  let ?c = "example_config\<lparr>cache := True\<rparr>"
  have n: "Inputs_new ?w = Inr ?c"
    by (simp add: ctor_defs example_raw_def example_config_def)
  have c: "installDeps ?c = Deps False" "cache ?c" "dir ?c = ''/w/Qt''" "version ?c = ''6.8.0''"
    "isInstallQtBinaries ?c"
    by (simp_all add: example_config_def)
  note h = snd_run_hit[OF n c(1-4)]
  have "\<not> list_ex is_install_qt (fst (run_with ?w ?c))"
    by (rule not_list_ex, rule install_qt_only_if) (simp add: h(1))
  with n c(5) h(2) show ?thesis by (simp add: run_eq[OF n])
qed




section \<open>Claims about the published environment\<close>

text \<open>
  C8. With binary installation and \<open>setEnv\<close> enabled and a Qt directory located:
  \<open>LD_LIBRARY_PATH\<close> (on linux) and \<open>PKG_CONFIG_PATH\<close> (off win32) are exported once;
  when the variable had a non-empty value, the exported value is that value, a colon and
  the new path; when it was unset (or empty), the exported value is the new path. Every
  export of one of the two variables in the trace of a whole run, completed or not, is
  made with \<open>setEnv\<close> enabled and carries such a value.
\<close>

theorem env_var_appended:
  "(isInstallQtBinaries c \<and> setEnv c \<and> locateQtArchDir w (dir c) = Inr q \<longrightarrow>
      (platform w = ''linux'' \<and> env w ''LD_LIBRARY_PATH'' = Some old \<and> old \<noteq> [] \<longrightarrow>
         filter (exports ''LD_LIBRARY_PATH'') (fst (publishQt w c))
           = [ExportVariable ''LD_LIBRARY_PATH'' (old @ '':'' @ path_resolve w [q, ''lib''])])
      \<and> (platform w = ''linux''
          \<and> (env w ''LD_LIBRARY_PATH'' = None \<or> env w ''LD_LIBRARY_PATH'' = Some []) \<longrightarrow>
         filter (exports ''LD_LIBRARY_PATH'') (fst (publishQt w c))
           = [ExportVariable ''LD_LIBRARY_PATH'' (path_resolve w [q, ''lib''])])
      \<and> (platform w \<noteq> ''win32'' \<and> env w ''PKG_CONFIG_PATH'' = Some old' \<and> old' \<noteq> [] \<longrightarrow>
         filter (exports ''PKG_CONFIG_PATH'') (fst (publishQt w c))
           = [ExportVariable ''PKG_CONFIG_PATH''
                (old' @ '':'' @ path_resolve w [q, ''lib'', ''pkgconfig''])])
      \<and> (platform w \<noteq> ''win32''
          \<and> (env w ''PKG_CONFIG_PATH'' = None \<or> env w ''PKG_CONFIG_PATH'' = Some []) \<longrightarrow>
         filter (exports ''PKG_CONFIG_PATH'') (fst (publishQt w c))
           = [ExportVariable ''PKG_CONFIG_PATH'' (path_resolve w [q, ''lib'', ''pkgconfig''])]))
   \<and> (Inputs_new w = Inr c \<and> ExportVariable ''LD_LIBRARY_PATH'' v \<in> set (fst (run w)) \<longrightarrow>
        setEnv c
        \<and> (\<exists>q'. locateQtArchDir w (dir c) = Inr q'
               \<and> (env w ''LD_LIBRARY_PATH'' = Some old \<and> old \<noteq> [] \<longrightarrow>
                    v = old @ '':'' @ path_resolve w [q', ''lib''])
               \<and> (env w ''LD_LIBRARY_PATH'' = None \<or> env w ''LD_LIBRARY_PATH'' = Some [] \<longrightarrow>
                    v = path_resolve w [q', ''lib''])))
   \<and> (Inputs_new w = Inr c \<and> ExportVariable ''PKG_CONFIG_PATH'' v \<in> set (fst (run w)) \<longrightarrow>
        setEnv c
        \<and> (\<exists>q'. locateQtArchDir w (dir c) = Inr q'
               \<and> (env w ''PKG_CONFIG_PATH'' = Some old' \<and> old' \<noteq> [] \<longrightarrow>
                    v = old' @ '':'' @ path_resolve w [q', ''lib'', ''pkgconfig''])
               \<and> (env w ''PKG_CONFIG_PATH'' = None \<or> env w ''PKG_CONFIG_PATH'' = Some [] \<longrightarrow>
                    v = path_resolve w [q', ''lib'', ''pkgconfig''])))"
proof (intro conjI impI)
  assume a: "Inputs_new w = Inr c \<and> ExportVariable ''LD_LIBRARY_PATH'' v \<in> set (fst (run w))"
  then have "ExportVariable ''LD_LIBRARY_PATH'' v \<in> set (fst (publishQt w c))"
    by (intro export_in_run) simp_all
  from in_publishQt[OF this] obtain q' where s: "setEnv c"
    and q': "locateQtArchDir w (dir c) = Inr q'"
    and m: "ExportVariable ''LD_LIBRARY_PATH'' v \<in> set (fst (publishEnv w c q'))" by blast
  from s show "setEnv c" .
  from in_filter_exports[OF m]
  have "(env w ''LD_LIBRARY_PATH'' = Some old \<and> old \<noteq> [] \<longrightarrow>
                    v = old @ '':'' @ path_resolve w [q', ''lib''])
               \<and> (env w ''LD_LIBRARY_PATH'' = None \<or> env w ''LD_LIBRARY_PATH'' = Some [] \<longrightarrow>
                    v = path_resolve w [q', ''lib''])"
    by (auto simp: filter_publishEnv_LD fst_setOrAppendEnvVar split: if_splits)
  with q' show "\<exists>q'. locateQtArchDir w (dir c) = Inr q'
               \<and> (env w ''LD_LIBRARY_PATH'' = Some old \<and> old \<noteq> [] \<longrightarrow>
                    v = old @ '':'' @ path_resolve w [q', ''lib''])
               \<and> (env w ''LD_LIBRARY_PATH'' = None \<or> env w ''LD_LIBRARY_PATH'' = Some [] \<longrightarrow>
                    v = path_resolve w [q', ''lib''])" by blast
next
  assume a: "Inputs_new w = Inr c \<and> ExportVariable ''PKG_CONFIG_PATH'' v \<in> set (fst (run w))"
  then have "ExportVariable ''PKG_CONFIG_PATH'' v \<in> set (fst (publishQt w c))"
    by (intro export_in_run) simp_all
  from in_publishQt[OF this] obtain q' where s: "setEnv c"
    and q': "locateQtArchDir w (dir c) = Inr q'"
    and m: "ExportVariable ''PKG_CONFIG_PATH'' v \<in> set (fst (publishEnv w c q'))" by blast
  from s show "setEnv c" .
  from in_filter_exports[OF m]
  have "(env w ''PKG_CONFIG_PATH'' = Some old' \<and> old' \<noteq> [] \<longrightarrow>
                    v = old' @ '':'' @ path_resolve w [q', ''lib'', ''pkgconfig''])
               \<and> (env w ''PKG_CONFIG_PATH'' = None \<or> env w ''PKG_CONFIG_PATH'' = Some [] \<longrightarrow>
                    v = path_resolve w [q', ''lib'', ''pkgconfig''])"
    by (auto simp: filter_publishEnv_PKG fst_setOrAppendEnvVar split: if_splits)
  with q' show "\<exists>q'. locateQtArchDir w (dir c) = Inr q'
               \<and> (env w ''PKG_CONFIG_PATH'' = Some old' \<and> old' \<noteq> [] \<longrightarrow>
                    v = old' @ '':'' @ path_resolve w [q', ''lib'', ''pkgconfig''])
               \<and> (env w ''PKG_CONFIG_PATH'' = None \<or> env w ''PKG_CONFIG_PATH'' = Some [] \<longrightarrow>
                    v = path_resolve w [q', ''lib'', ''pkgconfig''])" by blast
qed (auto simp: fst_publishQt filter_publishEnv_LD filter_publishEnv_PKG fst_setOrAppendEnvVar)

text \<open>
  The example runner has \<open>LD_LIBRARY_PATH=/opt/lib\<close> and no \<open>PKG_CONFIG_PATH\<close>; its run
  exports both.
\<close>

theorem env_var_appended_witness:
  "filter (exports ''LD_LIBRARY_PATH'') (fst (publishQt (example_world example_raw) example_config))
     = [ExportVariable ''LD_LIBRARY_PATH'' ''/opt/lib:/w/Qt/6.8.0/gcc_64/lib'']
   \<and> filter (exports ''PKG_CONFIG_PATH'') (fst (publishQt (example_world example_raw) example_config))
     = [ExportVariable ''PKG_CONFIG_PATH'' ''/w/Qt/6.8.0/gcc_64/lib/pkgconfig'']
   \<and> Inputs_new (example_world example_raw) = Inr example_config
   \<and> ExportVariable ''LD_LIBRARY_PATH'' ''/opt/lib:/w/Qt/6.8.0/gcc_64/lib''
       \<in> set (fst (run (example_world example_raw)))
   \<and> ExportVariable ''PKG_CONFIG_PATH'' ''/w/Qt/6.8.0/gcc_64/lib/pkgconfig''
       \<in> set (fst (run (example_world example_raw)))"
proof -
  let ?w = "example_world example_raw"
  let ?q = "''/w/Qt/6.8.0/gcc_64''"
  have f: "isInstallQtBinaries example_config" "setEnv example_config"
    by (simp_all add: example_config_def)
  have l: "locateQtArchDir ?w (dir example_config) = Inr ?q"
    by (simp add: example_config_def locate_example)
  have s: "snd (run ?w) = Inr ()"
    by (rule snd_run_example[OF Inputs_new_example]) (simp_all add: example_config_def)
  from env_var_appended[of example_config ?w ?q "''/opt/lib''" "[]", THEN conjunct1] f l
  have p: "filter (exports ''LD_LIBRARY_PATH'') (fst (publishQt ?w example_config))
       = [ExportVariable ''LD_LIBRARY_PATH'' ''/opt/lib:/w/Qt/6.8.0/gcc_64/lib'']
     \<and> filter (exports ''PKG_CONFIG_PATH'') (fst (publishQt ?w example_config))
       = [ExportVariable ''PKG_CONFIG_PATH'' ''/w/Qt/6.8.0/gcc_64/lib/pkgconfig'']"
    by (simp add: posix_resolve_def)
  have m: "\<And>P x xs. filter P xs = [x] \<Longrightarrow> x \<in> set xs"
    by (metis filter_is_subset list.set_intros(1) subsetD)
  note sub = publishQt_in_run[OF Inputs_new_example s]
  have r1: "ExportVariable ''LD_LIBRARY_PATH'' ''/opt/lib:/w/Qt/6.8.0/gcc_64/lib''
             \<in> set (fst (run ?w))"
    by (rule subsetD[OF sub m[OF p[THEN conjunct1]]])
  have r2: "ExportVariable ''PKG_CONFIG_PATH'' ''/w/Qt/6.8.0/gcc_64/lib/pkgconfig''
             \<in> set (fst (run ?w))"
    by (rule subsetD[OF sub m[OF p[THEN conjunct2]]])
  from p r1 r2 Inputs_new_example show ?thesis by (intro conjI) simp_all
qed

end
